theory Spec2Isabelle
  imports Complex_Main "HOL-Library.Sublist"
begin

section \<open>The store: DatabaseManager\<close>

text \<open>
  The program keeps four SQLite tables (\<^verbatim>\<open>create_tables\<close>). A table is the list of its
  rows in insertion order. Every table has an \<^verbatim>\<open>INTEGER PRIMARY KEY AUTOINCREMENT\<close>
  column, so each table carries the counter SQLite keeps for it: the largest row id it
  ever handed out. Text columns are strings; \<^verbatim>\<open>study_date\<close> and \<^verbatim>\<open>modality\<close> are
  never written by the program and stay NULL, hence the option type.

  \<^verbatim>\<open>hashlib.sha256(password.encode()).hexdigest()\<close> is a library function of the
  password alone. It is a parameter \<open>sha\<close> of the operations that hash.
  Row ids are natural numbers; the 64-bit limit of SQLite row ids is not modelled.
\<close>

record user_row =
  u_id :: nat
  username :: string
  password :: string
  user_type :: string

record dicom_row =
  d_id :: nat
  patient_id :: string
  patient_name :: string
  study_date :: "string option"
  modality :: "string option"
  dicom_path :: string
  nifti_path :: string
  d_user_id :: nat

text \<open>
  The analysis tables store \<^verbatim>\<open>str(params)\<close> and \<^verbatim>\<open>str(result)\<close>. The Python value
  handed to \<^verbatim>\<open>str\<close> is kept as it is: a string, a number, a list or a dict.
\<close>

datatype pyval =
    PStr string
  | PInt int
  | PList "pyval list"
  | PDict "(string \<times> pyval) list"

record image_row =
  i_id :: nat
  i_file_path :: string
  i_analysis_type :: string
  i_parameters :: pyval
  i_result :: pyval
  i_user_id :: nat

record signal_row =
  s_id :: nat
  s_file_path :: string
  signal_type :: string
  s_analysis_type :: string
  s_parameters :: pyval
  s_result :: pyval
  s_user_id :: nat

record database =
  users :: "user_row list"
  users_seq :: nat
  dicom_files :: "dicom_row list"
  dicom_seq :: nat
  image_analysis :: "image_row list"
  image_seq :: nat
  signal_analysis :: "signal_row list"
  signal_seq :: nat

text \<open>The state after \<^verbatim>\<open>create_tables\<close> on a new file: four empty tables.\<close>

definition empty_db :: database where
  "empty_db = \<lparr>users = [], users_seq = 0, dicom_files = [], dicom_seq = 0,
     image_analysis = [], image_seq = 0, signal_analysis = [], signal_seq = 0\<rparr>"

text \<open>
  AUTOINCREMENT: the id of a row inserted with a NULL key is one more than the largest
  id the table has ever held (its counter, or the largest id present if that is larger).
\<close>

definition next_rowid :: "nat \<Rightarrow> nat list \<Rightarrow> nat" where
  "next_rowid seq ids = Suc (fold max ids seq)"

text \<open>
  \<^verbatim>\<open>register_user\<close>: the INSERT violates \<^verbatim>\<open>username TEXT UNIQUE\<close> exactly when a row
  with this username is present; sqlite3 then raises IntegrityError, the statement has no
  effect, and the method returns False. Otherwise the row is appended and committed.
\<close>

definition register_user ::
  "(string \<Rightarrow> string) \<Rightarrow> database \<Rightarrow> string \<Rightarrow> string \<Rightarrow> string \<Rightarrow> database \<times> bool" where
  "register_user sha db uname pw utype =
     (let hashed = sha pw in
      if uname \<in> set (map username (users db)) then (db, False)
      else
        let i = next_rowid (users_seq db) (map u_id (users db)) in
        (db\<lparr>users := users db @
               [\<lparr>u_id = i, username = uname, password = hashed, user_type = utype\<rparr>],
            users_seq := i\<rparr>, True))"

text \<open>
  \<^verbatim>\<open>login_user\<close>: \<^verbatim>\<open>SELECT id, user_type ... WHERE username=? AND password=?\<close>
  followed by \<^verbatim>\<open>fetchone()\<close>: the first matching row, or None.
\<close>

definition login_user ::
  "(string \<Rightarrow> string) \<Rightarrow> database \<Rightarrow> string \<Rightarrow> string \<Rightarrow> (nat \<times> string) option" where
  "login_user sha db uname pw =
     (let hashed = sha pw in
      map_option (\<lambda>r. (u_id r, user_type r))
        (find (\<lambda>r. username r = uname \<and> password r = hashed) (users db)))"

definition save_dicom_analysis ::
  "database \<Rightarrow> string \<Rightarrow> string \<Rightarrow> string \<Rightarrow> string \<Rightarrow> nat \<Rightarrow> database" where
  "save_dicom_analysis db pid pname dpath npath uid =
     (let i = next_rowid (dicom_seq db) (map d_id (dicom_files db)) in
      db\<lparr>dicom_files := dicom_files db @
            [\<lparr>d_id = i, patient_id = pid, patient_name = pname, study_date = None,
              modality = None, dicom_path = dpath, nifti_path = npath, d_user_id = uid\<rparr>],
         dicom_seq := i\<rparr>)"

definition save_image_analysis ::
  "database \<Rightarrow> string \<Rightarrow> string \<Rightarrow> pyval \<Rightarrow> pyval \<Rightarrow> nat \<Rightarrow> database" where
  "save_image_analysis db fpath atype params res uid =
     (let i = next_rowid (image_seq db) (map i_id (image_analysis db)) in
      db\<lparr>image_analysis := image_analysis db @
            [\<lparr>i_id = i, i_file_path = fpath, i_analysis_type = atype,
              i_parameters = params, i_result = res, i_user_id = uid\<rparr>],
         image_seq := i\<rparr>)"

definition save_signal_analysis ::
  "database \<Rightarrow> string \<Rightarrow> string \<Rightarrow> string \<Rightarrow> pyval \<Rightarrow> pyval \<Rightarrow> nat \<Rightarrow> database" where
  "save_signal_analysis db fpath stype atype params res uid =
     (let i = next_rowid (signal_seq db) (map s_id (signal_analysis db)) in
      db\<lparr>signal_analysis := signal_analysis db @
            [\<lparr>s_id = i, s_file_path = fpath, signal_type = stype, s_analysis_type = atype,
              s_parameters = params, s_result = res, s_user_id = uid\<rparr>],
         signal_seq := i\<rparr>)"

section \<open>What a handler run leaves behind\<close>

text \<open>
  A Python exception is kept as the text \<^verbatim>\<open>str(e)\<close> that the handlers print. A run
  of a button handler ends in one of four ways: it ran its body to the end; it did
  nothing because its guard was false, a required field was empty or the file dialog was
  cancelled; an exception reached its \<^verbatim>\<open>except Exception\<close> clause; or an exception left
  a slot uncaught, which ends the process (PyQt5 calls \<^verbatim>\<open>qFatal\<close> on an unhandled
  exception in a slot).
\<close>

datatype exn = Exn string

fun str_of :: "exn \<Rightarrow> string" where
  "str_of (Exn m) = m"

datatype status = Completed | Aborted | Failed exn | Crashed exn

datatype dialog =
    Information string string
  | Warning string string
  | Critical string string

record 'w outcome =
  window :: 'w
  store :: database
  status :: status
  dialogs :: "dialog list"

text \<open>Non-ASCII letters of the user-visible texts, as their UTF-8 bytes.\<close>

definition a_acute :: string where "a_acute = [CHR 0xC3, CHR 0xA1]"
definition i_acute :: string where "i_acute = [CHR 0xC3, CHR 0xAD]"
definition o_acute :: string where "o_acute = [CHR 0xC3, CHR 0xB3]"
definition Exito :: string where "Exito = [CHR 0xC3, CHR 0x89] @ ''xito''"

section \<open>Widgets\<close>

text \<open>
  \<^verbatim>\<open>QSlider\<close>: a new slider has the range 0..99, the value 0. \<^verbatim>\<open>setMaximum\<close> lowers the
  minimum when the new maximum is below it, and re-bounds the value; \<^verbatim>\<open>setValue\<close>
  bounds its argument to the range. Both report whether the value changed, which is when
  Qt emits \<^verbatim>\<open>valueChanged\<close>.
\<close>

record slider =
  minimum :: int
  maximum :: int
  slider_value :: int
  enabled :: bool

definition QSlider :: slider where
  "QSlider = \<lparr>minimum = 0, maximum = 99, slider_value = 0, enabled = True\<rparr>"

definition bound :: "slider \<Rightarrow> int \<Rightarrow> int" where
  "bound s v = max (minimum s) (min (maximum s) v)"

definition setValue :: "slider \<Rightarrow> int \<Rightarrow> slider \<times> bool" where
  "setValue s v =
     (let v' = bound s v in
      if slider_value s = v' then (s, False) else (s\<lparr>slider_value := v'\<rparr>, True))"

definition setRange :: "slider \<Rightarrow> int \<Rightarrow> int \<Rightarrow> slider \<times> bool" where
  "setRange s mn mx =
     (let s' = s\<lparr>minimum := mn, maximum := max mn mx\<rparr> in
      if minimum s \<noteq> minimum s' \<or> maximum s \<noteq> maximum s'
      then setValue s' (slider_value s') else (s', False))"

definition setMaximum :: "slider \<Rightarrow> int \<Rightarrow> slider \<times> bool" where
  "setMaximum s mx = setRange s (min (minimum s) mx) mx"

definition setEnabled :: "slider \<Rightarrow> bool \<Rightarrow> slider" where
  "setEnabled s b = s\<lparr>enabled := b\<rparr>"

text \<open>
  \<^verbatim>\<open>QComboBox\<close> (not editable): the items and the index of the current one.
  \<^verbatim>\<open>currentText()\<close> is empty when there is no current item. Adding items to an empty
  box makes the first one current.
\<close>

record combo =
  items :: "string list"
  current_index :: "nat option"

definition QComboBox :: combo where
  "QComboBox = \<lparr>items = [], current_index = None\<rparr>"

definition currentText :: "combo \<Rightarrow> string" where
  "currentText c =
     (case current_index c of
        None \<Rightarrow> ''''
      | Some i \<Rightarrow> if i < length (items c) then items c ! i else '''')"

definition clear :: "combo \<Rightarrow> combo" where
  "clear c = \<lparr>items = [], current_index = None\<rparr>"

definition addItems :: "combo \<Rightarrow> string list \<Rightarrow> combo" where
  "addItems c xs =
     \<lparr>items = items c @ xs,
      current_index = (if current_index c = None \<and> items c @ xs \<noteq> [] then Some 0
                       else current_index c)\<rparr>"

section \<open>Arrays\<close>

text \<open>
  A numpy array is its shape and its elements in row-major order. \<^verbatim>\<open>np.stack\<close> needs
  at least one array and equal shapes. \<^verbatim>\<open>a[i, :, :]\<close>, \<^verbatim>\<open>a[:, i, :]\<close> and
  \<^verbatim>\<open>a[:, :, i]\<close> need three axes and an index within the axis (a negative index counts
  from the end); the result drops the indexed axis.
\<close>

datatype 'v ndarray = NDArray (shape: "nat list") (elems: "'v list")

definition ndim :: "'v ndarray \<Rightarrow> nat" where
  "ndim a = length (shape a)"

definition np_stack :: "'v ndarray list \<Rightarrow> exn + 'v ndarray" where
  "np_stack arrs =
     (case arrs of
        [] \<Rightarrow> Inl (Exn ''need at least one array to stack'')
      | a # rest \<Rightarrow>
          if list_all (\<lambda>b. shape b = shape a) rest
          then Inr (NDArray (length arrs # shape a) (concat (map elems arrs)))
          else Inl (Exn ''all input arrays must have the same shape''))"

definition index_axis :: "'v ndarray \<Rightarrow> nat \<Rightarrow> int \<Rightarrow> exn + 'v ndarray" where
  "index_axis a k i =
     (if ndim a < 3 then Inl (Exn ''too many indices for array'')
      else
        let d = shape a ! k in
        if i < - int d \<or> int d \<le> i then Inl (Exn ''index out of bounds'')
        else
          let j = nat (if i < 0 then i + int d else i);
              outer = prod_list (take k (shape a));
              inner = prod_list (drop (Suc k) (shape a))
          in Inr (NDArray (take k (shape a) @ drop (Suc k) (shape a))
                    (concat (map (\<lambda>b. take inner (drop ((b * d + j) * inner) (elems a)))
                               [0..<outer]))))"

section \<open>The image workflow: ImageExpertWindow\<close>

datatype morph = Apertura | Cierre | Gradiente

datatype kernel = K3x3 | K5x5 | K7x7

fun morph_text :: "morph \<Rightarrow> string" where
  "morph_text Apertura = ''Apertura''"
| "morph_text Cierre = ''Cierre''"
| "morph_text Gradiente = ''Gradiente''"

text \<open>\<^verbatim>\<open>int(self.morph_kernel.currentText().split('x')[0])\<close> on the three items.\<close>

fun kernel_size :: "kernel \<Rightarrow> nat" where
  "kernel_size K3x3 = 3"
| "kernel_size K5x5 = 5"
| "kernel_size K7x7 = 7"

text \<open>
  The fields of the window that the handlers read or write. \<^verbatim>\<open>current_image_path\<close> is
  an attribute that does not exist until \<^verbatim>\<open>load_image\<close> sets it. The canvases and
  labels only display, and are left out.
\<close>

record ('v, 'img) image_window =
  iw_user_id :: nat
  current_image :: "'img option"
  current_image_path :: "string option"
  dicom_volume :: "'v ndarray option"
  slider_axial :: slider
  slider_coronal :: slider
  slider_sagital :: slider
  morph_op :: morph
  morph_kernel :: kernel

text \<open>\<^verbatim>\<open>__init__\<close> and \<^verbatim>\<open>setup_ui\<close>: nothing loaded, the three sliders disabled.\<close>

definition ImageExpertWindow_init :: "nat \<Rightarrow> ('v, 'img) image_window" where
  "ImageExpertWindow_init uid =
     \<lparr>iw_user_id = uid, current_image = None, current_image_path = None,
      dicom_volume = None,
      slider_axial = setEnabled QSlider False,
      slider_coronal = setEnabled QSlider False,
      slider_sagital = setEnabled QSlider False,
      morph_op = Apertura, morph_kernel = K3x3\<rparr>"

section \<open>The signal workflow: SignalExpertWindow\<close>

text \<open>
  \<^verbatim>\<open>mat_data\<close> is the dict that \<^verbatim>\<open>scipy.io.loadmat\<close> returns, in key order; \<^verbatim>\<open>df\<close>
  is the data frame of \<^verbatim>\<open>pd.read_csv\<close>, as its named columns in order. The arrays and
  the columns themselves are values of the libraries.
\<close>

record ('arr, 'col) signal_window =
  sw_user_id :: nat
  mat_data :: "(string \<times> 'arr) list option"
  signal_combo :: combo
  df :: "(string \<times> 'col) list option"
  csv_x :: combo
  csv_y :: combo

definition SignalExpertWindow_init :: "nat \<Rightarrow> ('arr, 'col) signal_window" where
  "SignalExpertWindow_init uid =
     \<lparr>sw_user_id = uid, mat_data = None, signal_combo = QComboBox, df = None,
      csv_x = QComboBox, csv_y = QComboBox\<rparr>"

section \<open>The role router: MainWindow\<close>

datatype ('v, 'img, 'arr, 'col) main_window =
    ImageExpertWindow "('v, 'img) image_window"
  | SignalExpertWindow "('arr, 'col) signal_window"

text \<open>\<^verbatim>\<open>MainWindow.__new__\<close>: the factory that picks the window from the stored role.\<close>

definition MainWindow :: "nat \<Rightarrow> string \<Rightarrow> ('v, 'img, 'arr, 'col) main_window" where
  "MainWindow uid utype =
     (if utype = ''imagen'' then ImageExpertWindow (ImageExpertWindow_init uid)
      else SignalExpertWindow (SignalExpertWindow_init uid))"

section \<open>LoginWindow\<close>

record ('v, 'img, 'arr, 'col) login_window =
  lw_username :: string
  lw_password :: string
  btn_imagen :: bool
  main_window :: "('v, 'img, 'arr, 'col) main_window option"
  hidden :: bool

definition LoginWindow_init :: "('v, 'img, 'arr, 'col) login_window" where
  "LoginWindow_init =
     \<lparr>lw_username = '''', lw_password = '''', btn_imagen = True, main_window = None,
      hidden = False\<rparr>"

definition handle_login ::
  "(string \<Rightarrow> string) \<Rightarrow> ('v, 'img, 'arr, 'col) login_window \<Rightarrow> database
     \<Rightarrow> ('v, 'img, 'arr, 'col) login_window outcome" where
  "handle_login sha w db =
     (if lw_username w = '''' \<or> lw_password w = '''' then
        \<lparr>window = w, store = db, status = Aborted,
         dialogs = [Warning ''Error'' ''Por favor complete todos los campos'']\<rparr>
      else
        case login_user sha db (lw_username w) (lw_password w) of
          Some user \<Rightarrow>
            \<lparr>window = w\<lparr>hidden := True,
                 main_window :=
                   (if main_window w = None then Some (MainWindow (fst user) (snd user))
                    else main_window w)\<rparr>,
             store = db, status = Completed, dialogs = []\<rparr>
        | None \<Rightarrow>
            \<lparr>window = w, store = db, status = Completed,
             dialogs = [Warning ''Error'' ''Credenciales incorrectas'']\<rparr>)"

definition handle_register ::
  "(string \<Rightarrow> string) \<Rightarrow> ('v, 'img, 'arr, 'col) login_window \<Rightarrow> database
     \<Rightarrow> ('v, 'img, 'arr, 'col) login_window outcome" where
  "handle_register sha w db =
     (let utype = (if btn_imagen w then ''imagen'' else ''senal'') in
      if lw_username w = '''' \<or> lw_password w = '''' then
        \<lparr>window = w, store = db, status = Aborted,
         dialogs = [Warning ''Error'' ''Por favor complete todos los campos'']\<rparr>
      else
        case register_user sha db (lw_username w) (lw_password w) utype of
          (db', True) \<Rightarrow>
            \<lparr>window = w, store = db', status = Completed,
             dialogs = [Information Exito ''Registro exitoso'']\<rparr>
        | (db', False) \<Rightarrow>
            \<lparr>window = w, store = db', status = Completed,
             dialogs = [Warning ''Error'' ''El usuario ya existe'']\<rparr>)"

section \<open>Handlers of the signal workflow\<close>

text \<open>
  The handlers call scipy, numpy, pandas and matplotlib. Each call that the handler makes
  inside its \<^verbatim>\<open>try\<close> is a function of the library record below, and may return an
  exception. Numbers computed by the libraries are values of a type \<open>'f\<close>;
  \<open>format_2f\<close> is Python's \<^verbatim>\<open>f"{x:.2f}"\<close>. The file path is the answer of the file
  dialog: the empty string when the user cancels.
\<close>

record ('arr, 'f) mat_lib =
  loadmat :: "string \<Rightarrow> exn + (string \<times> 'arr) list"
  arr_ndim :: "'arr \<Rightarrow> nat"
  arr_T :: "'arr \<Rightarrow> 'arr"
  ax_plot :: "'arr \<Rightarrow> exn option"
  np_mean :: "'arr \<Rightarrow> exn + 'f"
  np_std :: "'arr \<Rightarrow> exn + 'f"
  np_max :: "'arr \<Rightarrow> exn + 'f"
  np_min :: "'arr \<Rightarrow> exn + 'f"
  format_2f :: "'f \<Rightarrow> exn + string"

record ('col, 'f) csv_lib =
  read_csv :: "string \<Rightarrow> exn + (string \<times> 'col) list"
  is_number :: "'col \<Rightarrow> bool"
  ax_scatter :: "'col \<Rightarrow> 'col \<Rightarrow> exn option"
  ax_plot_col :: "'col \<Rightarrow> exn option"
  col_mean :: "'col \<Rightarrow> exn + 'f"
  col_std :: "'col \<Rightarrow> exn + 'f"
  col_max :: "'col \<Rightarrow> exn + 'f"
  col_min :: "'col \<Rightarrow> exn + 'f"
  col_format_2f :: "'f \<Rightarrow> exn + string"
  col_len :: "'col \<Rightarrow> nat"
  value_counts_to_string :: "'col \<Rightarrow> exn + string"

text \<open>Sequencing of calls that may raise: the first exception ends the \<^verbatim>\<open>try\<close> body.\<close>

definition and_then :: "exn + 'a \<Rightarrow> ('a \<Rightarrow> exn + 'b) \<Rightarrow> exn + 'b" where
  "and_then r f = (case r of Inl e \<Rightarrow> Inl e | Inr v \<Rightarrow> f v)"

definition unless_raised :: "exn option \<Rightarrow> exn + 'b \<Rightarrow> exn + 'b" where
  "unless_raised r k = (case r of Some e \<Rightarrow> Inl e | None \<Rightarrow> k)"

text \<open>
  \<^verbatim>\<open>except Exception as e: QMessageBox.critical(self, "Error", f"...{str(e)}")\<close>:
  the window and the store stay as they were when the handler began, unless the handler
  says otherwise.
\<close>

definition caught :: "'w \<Rightarrow> database \<Rightarrow> string \<Rightarrow> exn \<Rightarrow> 'w outcome" where
  "caught w db msg e =
     \<lparr>window = w, store = db, status = Failed e,
      dialogs = [Critical ''Error'' (msg @ str_of e)]\<rparr>"

definition aborted :: "'w \<Rightarrow> database \<Rightarrow> 'w outcome" where
  "aborted w db = \<lparr>window = w, store = db, status = Aborted, dialogs = []\<rparr>"

text \<open>
  \<^verbatim>\<open>d[key]\<close> on an attribute that holds None or a dict (a data frame for \<^verbatim>\<open>self.df\<close>).
\<close>

definition subscript :: "(string \<times> 'a) list option \<Rightarrow> string \<Rightarrow> exn + 'a" where
  "subscript d k =
     (case d of
        None \<Rightarrow> Inl (Exn ''NoneType object is not subscriptable'')
      | Some kvs \<Rightarrow>
          (case map_of kvs k of
             None \<Rightarrow> Inl (Exn ([CHR 0x27] @ k @ [CHR 0x27]))
           | Some v \<Rightarrow> Inr v))"

definition newline :: string where "newline = [CHR 0x0A]"

definition Analisis :: string where "Analisis = ''An'' @ a_acute @ ''lisis''"

fun str_nat :: "nat \<Rightarrow> string" where
  "str_nat n =
     (if n < 10 then [char_of (48 + n)]
      else str_nat (n div 10) @ [char_of (48 + n mod 10)])"

definition load_mat ::
  "('arr, 'f) mat_lib \<Rightarrow> ('arr, 'col) signal_window \<Rightarrow> database \<Rightarrow> string
     \<Rightarrow> ('arr, 'col) signal_window outcome" where
  "load_mat lib w db filepath =
     (if filepath = '''' then aborted w db
      else
        case loadmat lib filepath of
          Inl e \<Rightarrow> caught w db ''Error al cargar .mat: '' e
        | Inr d \<Rightarrow>
            \<lparr>window = w\<lparr>mat_data := Some d,
                 signal_combo := addItems (clear (signal_combo w))
                   (filter (\<lambda>k. \<not> prefix ''__'' k) (map fst d))\<rparr>,
             store = save_signal_analysis db filepath ''MAT'' ''load'' (PDict [])
                       (PStr ''success'') (sw_user_id w),
             status = Completed, dialogs = []\<rparr>)"

definition plot_signal ::
  "('arr, 'f) mat_lib \<Rightarrow> ('arr, 'col) signal_window \<Rightarrow> database
     \<Rightarrow> ('arr, 'col) signal_window outcome" where
  "plot_signal lib w db =
     (let name = currentText (signal_combo w) in
      if name = '''' then aborted w db
      else
        case and_then (subscript (mat_data w) name)
               (\<lambda>data. unless_raised
                  (if arr_ndim lib data = 1 then ax_plot lib data
                   else if arr_ndim lib data = 2 then ax_plot lib (arr_T lib data)
                   else None)
                  (Inr ())) of
          Inl e \<Rightarrow> caught w db ''Error al graficar: '' e
        | Inr _ \<Rightarrow>
            \<lparr>window = w,
             store = save_signal_analysis db '''' ''MAT'' ''plot''
                       (PDict [(''signal'', PStr name)]) (PStr ''success'') (sw_user_id w),
             status = Completed, dialogs = []\<rparr>)"

definition analyze_signal ::
  "('arr, 'f) mat_lib \<Rightarrow> ('arr, 'col) signal_window \<Rightarrow> database
     \<Rightarrow> ('arr, 'col) signal_window outcome" where
  "analyze_signal lib w db =
     (let name = currentText (signal_combo w) in
      if name = '''' then aborted w db
      else
        case and_then (subscript (mat_data w) name) (\<lambda>data.
             and_then (np_mean lib data) (\<lambda>mean_val.
             and_then (np_std lib data) (\<lambda>std_val.
             and_then (np_max lib data) (\<lambda>max_val.
             and_then (np_min lib data) (\<lambda>min_val.
             and_then (format_2f lib mean_val) (\<lambda>s1.
             and_then (format_2f lib std_val) (\<lambda>s2.
             and_then (format_2f lib max_val) (\<lambda>s3.
             and_then (format_2f lib min_val) (\<lambda>s4.
               Inr (''Media: '' @ s1 @ newline
                    @ ''Desviaci'' @ o_acute @ ''n: '' @ s2 @ newline
                    @ ''M'' @ a_acute @ ''ximo: '' @ s3 @ newline
                    @ ''M'' @ i_acute @ ''nimo: '' @ s4)))))))))) of
          Inl e \<Rightarrow> caught w db (''Error en an'' @ a_acute @ ''lisis: '') e
        | Inr result \<Rightarrow>
            \<lparr>window = w,
             store = save_signal_analysis db '''' ''MAT'' ''basic_analysis''
                       (PDict [(''signal'', PStr name)]) (PStr result) (sw_user_id w),
             status = Completed, dialogs = [Information Analisis result]\<rparr>)"

definition load_csv ::
  "('col, 'f) csv_lib \<Rightarrow> ('arr, 'col) signal_window \<Rightarrow> database \<Rightarrow> string
     \<Rightarrow> ('arr, 'col) signal_window outcome" where
  "load_csv lib w db filepath =
     (if filepath = '''' then aborted w db
      else
        case read_csv lib filepath of
          Inl e \<Rightarrow> caught w db ''Error al cargar CSV: '' e
        | Inr d \<Rightarrow>
            \<lparr>window = w\<lparr>df := Some d,
                 csv_x := addItems (clear (csv_x w)) (map fst d),
                 csv_y := addItems (clear (csv_y w)) (map fst d)\<rparr>,
             store = save_signal_analysis db filepath ''CSV'' ''load''
                       (PDict [(''columns'', PList (map PStr (map fst d)))])
                       (PStr ''success'') (sw_user_id w),
             status = Completed, dialogs = []\<rparr>)"

definition plot_csv ::
  "('col, 'f) csv_lib \<Rightarrow> ('arr, 'col) signal_window \<Rightarrow> database
     \<Rightarrow> ('arr, 'col) signal_window outcome" where
  "plot_csv lib w db =
     (let xname = currentText (csv_x w); yname = currentText (csv_y w) in
      if xname = '''' \<or> yname = '''' then aborted w db
      else
        case and_then (subscript (df w) xname) (\<lambda>x.
             and_then (subscript (df w) yname) (\<lambda>y.
               unless_raised
                 (if is_number lib x \<and> is_number lib y then ax_scatter lib x y
                  else ax_plot_col lib y)
                 (Inr ()))) of
          Inl e \<Rightarrow> caught w db ''Error al graficar: '' e
        | Inr _ \<Rightarrow>
            \<lparr>window = w,
             store = save_signal_analysis db '''' ''CSV'' ''plot''
                       (PDict [(''x_axis'', PStr xname), (''y_axis'', PStr yname)])
                       (PStr ''success'') (sw_user_id w),
             status = Completed, dialogs = []\<rparr>)"

definition analyze_csv ::
  "('col, 'f) csv_lib \<Rightarrow> ('arr, 'col) signal_window \<Rightarrow> database
     \<Rightarrow> ('arr, 'col) signal_window outcome" where
  "analyze_csv lib w db =
     (let yname = currentText (csv_y w) in
      if yname = '''' then aborted w db
      else
        case and_then (subscript (df w) yname) (\<lambda>col.
               if is_number lib col then
                 and_then (col_mean lib col) (\<lambda>mean_val.
                 and_then (col_std lib col) (\<lambda>std_val.
                 and_then (col_max lib col) (\<lambda>max_val.
                 and_then (col_min lib col) (\<lambda>min_val.
                 and_then (col_format_2f lib mean_val) (\<lambda>s1.
                 and_then (col_format_2f lib std_val) (\<lambda>s2.
                 and_then (col_format_2f lib max_val) (\<lambda>s3.
                 and_then (col_format_2f lib min_val) (\<lambda>s4.
                   Inr (Analisis @ '' de '' @ yname @ '':'' @ newline
                        @ ''Media: '' @ s1 @ newline
                        @ ''Desviaci'' @ o_acute @ ''n: '' @ s2 @ newline
                        @ ''M'' @ a_acute @ ''ximo: '' @ s3 @ newline
                        @ ''M'' @ i_acute @ ''nimo: '' @ s4 @ newline
                        @ ''Cantidad: '' @ str_nat (col_len lib col))))))))))
               else
                 and_then (value_counts_to_string lib col) (\<lambda>counts.
                   Inr (''Conteo de valores para '' @ yname @ '':'' @ newline @ counts))) of
          Inl e \<Rightarrow> caught w db (''Error en an'' @ a_acute @ ''lisis: '') e
        | Inr result \<Rightarrow>
            \<lparr>window = w,
             store = save_signal_analysis db '''' ''CSV'' ''basic_analysis''
                       (PDict [(''column'', PStr yname)]) (PStr result) (sw_user_id w),
             status = Completed, dialogs = [Information Analisis result]\<rparr>)"

section \<open>Handlers of the image workflow\<close>

text \<open>
  A DICOM data set as the handler reads it: the attributes may be missing, and reading
  \<^verbatim>\<open>pixel_array\<close> may raise. The third coordinate of \<^verbatim>\<open>ImagePositionPatient\<close> is the
  sort key; it is a rational number here (a finite float is one).
\<close>

record 'v dcm =
  ImagePositionPatient :: "rat list option"
  pixel_array :: "exn + 'v ndarray"
  PatientName :: "string option"
  PatientID :: "string option"

datatype color_code = COLOR_BGR2GRAY | COLOR_BGR2RGB | COLOR_RGB2BGR

datatype cv_morph = MORPH_OPEN | MORPH_CLOSE | MORPH_GRADIENT

text \<open>
  The calls into os, pydicom, nibabel, OpenCV and matplotlib. An image of OpenCV is a
  value of a type \<open>'img\<close>. \<open>morphologyEx src op k n\<close> is the call with a \<open>k\<close> by \<open>k\<close>
  kernel of ones and \<open>n\<close> iterations; \<open>threshold_inv_otsu src\<close> is
  \<^verbatim>\<open>cv2.threshold(src, 0, 255, cv2.THRESH_BINARY_INV + cv2.THRESH_OTSU)\<close>;
  \<open>connectedComponents\<close> returns the number of labels and the label image.
  \<open>nib_load\<close> is \<^verbatim>\<open>nib.load\<close> followed by \<^verbatim>\<open>get_fdata\<close>.
\<close>

record ('v, 'img) image_lib =
  listdir :: "string \<Rightarrow> exn + string list"
  dcmread :: "string \<Rightarrow> string \<Rightarrow> exn + 'v dcm"
  imshow_slice :: "'v ndarray \<Rightarrow> exn option"
  Nifti1Image :: "'v ndarray option \<Rightarrow> exn option"
  nib_save :: "'v ndarray option \<Rightarrow> string \<Rightarrow> exn option"
  nib_load :: "string \<Rightarrow> exn + 'v ndarray"
  imread :: "string \<Rightarrow> 'img option"
  img_ndim :: "'img \<Rightarrow> nat"
  cvtColor :: "'img \<Rightarrow> color_code \<Rightarrow> exn + 'img"
  morphologyEx :: "'img \<Rightarrow> cv_morph \<Rightarrow> nat \<Rightarrow> nat \<Rightarrow> exn + 'img"
  threshold_inv_otsu :: "'img \<Rightarrow> exn + 'img"
  connectedComponents :: "'img \<Rightarrow> exn + nat \<times> 'img"
  imshow :: "'img \<Rightarrow> exn option"
  imwrite :: "string \<Rightarrow> 'img \<Rightarrow> exn option"

definition str_int :: "int \<Rightarrow> string" where
  "str_int i = (if i < 0 then ''-'' @ str_nat (nat (- i)) else str_nat (nat i))"

text \<open>
  \<^verbatim>\<open>update_dicom_view\<close>: the three slices at the sliders' values, then their display.
  The attribute \<^verbatim>\<open>dicom_volume\<close> always exists, so the \<^verbatim>\<open>hasattr\<close> test is true.
\<close>

definition update_dicom_view ::
  "('v, 'img) image_lib \<Rightarrow> ('v, 'img) image_window \<Rightarrow> exn option" where
  "update_dicom_view lib w =
     (case dicom_volume w of
        None \<Rightarrow> Some (Exn ''NoneType object is not subscriptable'')
      | Some vol \<Rightarrow>
          (case and_then (index_axis vol 0 (slider_value (slider_axial w))) (\<lambda>a.
                and_then (index_axis vol 1 (slider_value (slider_coronal w))) (\<lambda>c.
                and_then (index_axis vol 2 (slider_value (slider_sagital w))) (\<lambda>s.
                  unless_raised (imshow_slice lib a)
                    (unless_raised (imshow_slice lib c)
                      (unless_raised (imshow_slice lib s) (Inr ())))))) of
             Inl e \<Rightarrow> Some e
           | Inr _ \<Rightarrow> None))"

datatype axis = Axial | Coronal | Sagital

fun get_slider :: "('v, 'img) image_window \<Rightarrow> axis \<Rightarrow> slider" where
  "get_slider w Axial = slider_axial w"
| "get_slider w Coronal = slider_coronal w"
| "get_slider w Sagital = slider_sagital w"

fun put_slider :: "('v, 'img) image_window \<Rightarrow> axis \<Rightarrow> slider \<Rightarrow> ('v, 'img) image_window" where
  "put_slider w Axial s = w\<lparr>slider_axial := s\<rparr>"
| "put_slider w Coronal s = w\<lparr>slider_coronal := s\<rparr>"
| "put_slider w Sagital s = w\<lparr>slider_sagital := s\<rparr>"

text \<open>
  One round of the loop over \<^verbatim>\<open>zip(sliders, volume.shape)\<close>. Every slider's
  \<^verbatim>\<open>valueChanged\<close> is connected to \<^verbatim>\<open>update_dicom_view\<close>, so a call that changes the
  value runs that slot at once; an exception there is outside every \<^verbatim>\<open>try\<close> of
  Python and is returned as \<open>Inl\<close>.
\<close>

definition set_slider ::
  "('v, 'img) image_lib \<Rightarrow> ('v, 'img) image_window \<Rightarrow> axis \<Rightarrow> nat
     \<Rightarrow> exn + ('v, 'img) image_window" where
  "set_slider lib w a extent =
     (let r1 = setMaximum (get_slider w a) (int extent - 1);
          w1 = put_slider w a (fst r1)
      in case (if snd r1 then update_dicom_view lib w1 else None) of
           Some e \<Rightarrow> Inl e
         | None \<Rightarrow>
             let r2 = setValue (fst r1) (int extent div 2);
                 w2 = put_slider w1 a (fst r2)
             in case (if snd r2 then update_dicom_view lib w2 else None) of
                  Some e \<Rightarrow> Inl e
                | None \<Rightarrow> Inr (put_slider w2 a (setEnabled (fst r2) True)))"

fun set_sliders ::
  "('v, 'img) image_lib \<Rightarrow> ('v, 'img) image_window \<Rightarrow> (axis \<times> nat) list
     \<Rightarrow> exn + ('v, 'img) image_window" where
  "set_sliders lib w [] = Inr w"
| "set_sliders lib w ((a, extent) # rest) =
     (case set_slider lib w a extent of
        Inl e \<Rightarrow> Inl e
      | Inr w' \<Rightarrow> set_sliders lib w' rest)"

text \<open>Calls in sequence over a list, stopping at the first exception.\<close>

fun each :: "('a \<Rightarrow> exn + 'b) \<Rightarrow> 'a list \<Rightarrow> exn + 'b list" where
  "each f [] = Inr []"
| "each f (x # xs) =
     (case f x of
        Inl e \<Rightarrow> Inl e
      | Inr y \<Rightarrow> (case each f xs of Inl e \<Rightarrow> Inl e | Inr ys \<Rightarrow> Inr (y # ys)))"

text \<open>\<^verbatim>\<open>float(x.ImagePositionPatient[2])\<close>, paired with the data set it is the key of.\<close>

definition position_key :: "'v dcm \<Rightarrow> exn + rat \<times> 'v dcm" where
  "position_key x =
     (case ImagePositionPatient x of
        None \<Rightarrow> Inl (Exn ''Dataset has no attribute ImagePositionPatient'')
      | Some ps \<Rightarrow>
          if length ps \<le> 2 then Inl (Exn ''list index out of range'')
          else Inr (ps ! 2, x))"

text \<open>
  The part of \<^verbatim>\<open>load_dicom\<close> that reads: the files ending in \<^verbatim>\<open>.dcm\<close>, sorted by
  position (Python's sort is stable), and the stacked volume.
\<close>

definition read_slices ::
  "('v, 'img) image_lib \<Rightarrow> string \<Rightarrow> exn + 'v dcm list \<times> 'v ndarray" where
  "read_slices lib dir_path =
     and_then (listdir lib dir_path) (\<lambda>names.
     and_then (each (dcmread lib dir_path) (filter (suffix ''.dcm'') names)) (\<lambda>slices.
     and_then (each position_key slices) (\<lambda>keyed.
       let sorted_slices = map snd (sort_key fst keyed) in
       and_then (each pixel_array sorted_slices) (\<lambda>arrays.
       and_then (np_stack arrays) (\<lambda>volume. Inr (sorted_slices, volume))))))"

definition or_default :: "string option \<Rightarrow> string \<Rightarrow> string" where
  "or_default a d = (case a of None \<Rightarrow> d | Some v \<Rightarrow> v)"

definition load_dicom ::
  "('v, 'img) image_lib \<Rightarrow> ('v, 'img) image_window \<Rightarrow> database \<Rightarrow> string
     \<Rightarrow> ('v, 'img) image_window outcome" where
  "load_dicom lib w db dir_path =
     (if dir_path = '''' then aborted w db
      else
        case read_slices lib dir_path of
          Inl e \<Rightarrow> caught w db ''Error al cargar DICOM: '' e
        | Inr (slices, volume) \<Rightarrow>
            (case set_sliders lib (w\<lparr>dicom_volume := Some volume\<rparr>)
                    (zip [Axial, Coronal, Sagital] (shape volume)) of
               Inl e \<Rightarrow>
                 \<lparr>window = w\<lparr>dicom_volume := Some volume\<rparr>, store = db,
                  status = Crashed e, dialogs = []\<rparr>
             | Inr w' \<Rightarrow>
                 (case slices of
                    [] \<Rightarrow> caught w' db ''Error al cargar DICOM: '' (Exn ''list index out of range'')
                  | first_slice # _ \<Rightarrow>
                      let db' = save_dicom_analysis db
                                  (or_default (PatientID first_slice) '''')
                                  (or_default (PatientName first_slice) '''')
                                  dir_path '''' (iw_user_id w')
                      in case update_dicom_view lib w' of
                           Some e \<Rightarrow> caught w' db' ''Error al cargar DICOM: '' e
                         | None \<Rightarrow>
                             \<lparr>window = w', store = db', status = Completed,
                              dialogs = []\<rparr>)))"

definition convert_to_nifti ::
  "('v, 'img) image_lib \<Rightarrow> ('v, 'img) image_window \<Rightarrow> database \<Rightarrow> string
     \<Rightarrow> ('v, 'img) image_window outcome" where
  "convert_to_nifti lib w db filepath =
     (case Nifti1Image lib (dicom_volume w) of
        Some e \<Rightarrow> caught w db ''Error al convertir: '' e
      | None \<Rightarrow>
          if filepath = '''' then aborted w db
          else
            case nib_save lib (dicom_volume w) filepath of
              Some e \<Rightarrow> caught w db ''Error al convertir: '' e
            | None \<Rightarrow>
                \<lparr>window = w, store = db, status = Completed,
                 dialogs = [Information Exito ''Archivo NIfTI guardado'']\<rparr>)"

definition view_nifti ::
  "('v, 'img) image_lib \<Rightarrow> ('v, 'img) image_window \<Rightarrow> database \<Rightarrow> string
     \<Rightarrow> ('v, 'img) image_window outcome" where
  "view_nifti lib w db filepath =
     (if filepath = '''' then aborted w db
      else
        case nib_load lib filepath of
          Inl e \<Rightarrow> caught w db ''Error al cargar NIfTI: '' e
        | Inr volume \<Rightarrow>
            (case set_sliders lib (w\<lparr>dicom_volume := Some volume\<rparr>)
                    (zip [Axial, Coronal, Sagital] (shape volume)) of
               Inl e \<Rightarrow>
                 \<lparr>window = w\<lparr>dicom_volume := Some volume\<rparr>, store = db,
                  status = Crashed e, dialogs = []\<rparr>
             | Inr w' \<Rightarrow>
                 (case update_dicom_view lib w' of
                    Some e \<Rightarrow> caught w' db ''Error al cargar NIfTI: '' e
                  | None \<Rightarrow>
                      \<lparr>window = w', store = db, status = Completed, dialogs = []\<rparr>)))"

text \<open>
  \<^verbatim>\<open>show_image\<close> reads \<^verbatim>\<open>self.current_image.shape\<close>, which raises on None.
\<close>

definition show_image ::
  "('v, 'img) image_lib \<Rightarrow> ('v, 'img) image_window \<Rightarrow> exn option" where
  "show_image lib w =
     (case current_image w of
        None \<Rightarrow> Some (Exn ''NoneType object has no attribute shape'')
      | Some im \<Rightarrow>
          if img_ndim lib im = 2 then imshow lib im
          else (case cvtColor lib im COLOR_BGR2RGB of
                  Inl e \<Rightarrow> Some e
                | Inr rgb \<Rightarrow> imshow lib rgb))"

text \<open>
  \<^verbatim>\<open>load_image\<close> has no \<^verbatim>\<open>try\<close>: \<^verbatim>\<open>cv2.imread\<close> returns None for a file it cannot
  read, and the exception of \<^verbatim>\<open>show_image\<close> leaves the slot.
\<close>

definition load_image ::
  "('v, 'img) image_lib \<Rightarrow> ('v, 'img) image_window \<Rightarrow> database \<Rightarrow> string
     \<Rightarrow> ('v, 'img) image_window outcome" where
  "load_image lib w db filepath =
     (if filepath = '''' then aborted w db
      else
        let w' = w\<lparr>current_image := imread lib filepath,
                   current_image_path := Some filepath\<rparr>
        in case show_image lib w' of
             Some e \<Rightarrow> \<lparr>window = w', store = db, status = Crashed e, dialogs = []\<rparr>
           | None \<Rightarrow> \<lparr>window = w', store = db, status = Completed, dialogs = []\<rparr>)"

fun op_map :: "morph \<Rightarrow> cv_morph" where
  "op_map Apertura = MORPH_OPEN"
| "op_map Cierre = MORPH_CLOSE"
| "op_map Gradiente = MORPH_GRADIENT"

definition to_gray :: "('v, 'img) image_lib \<Rightarrow> 'img \<Rightarrow> exn + 'img" where
  "to_gray lib im = (if img_ndim lib im = 3 then cvtColor lib im COLOR_BGR2GRAY else Inr im)"

definition image_path :: "('v, 'img) image_window \<Rightarrow> exn + string" where
  "image_path w =
     (case current_image_path w of
        None \<Rightarrow> Inl (Exn ''ImageExpertWindow object has no attribute current_image_path'')
      | Some p \<Rightarrow> Inr p)"

definition apply_morphological ::
  "('v, 'img) image_lib \<Rightarrow> ('v, 'img) image_window \<Rightarrow> database
     \<Rightarrow> ('v, 'img) image_window outcome" where
  "apply_morphological lib w db =
     (case current_image w of
        None \<Rightarrow> aborted w db
      | Some im \<Rightarrow>
          (case and_then (to_gray lib im) (\<lambda>gray.
                  morphologyEx lib gray (op_map (morph_op w)) (kernel_size (morph_kernel w)) 1) of
             Inl e \<Rightarrow> caught w db (''Error en operaci'' @ o_acute @ ''n: '') e
           | Inr result \<Rightarrow>
               let w' = w\<lparr>current_image := Some result\<rparr> in
               case unless_raised (show_image lib w') (image_path w') of
                 Inl e \<Rightarrow> caught w' db (''Error en operaci'' @ o_acute @ ''n: '') e
               | Inr path \<Rightarrow>
                   \<lparr>window = w',
                    store = save_image_analysis db path ''morphological''
                              (PDict [(''operation'', PStr (morph_text (morph_op w))),
                                      (''kernel_size'', PInt (int (kernel_size (morph_kernel w))))])
                              (PStr ''success'') (iw_user_id w'),
                    status = Completed, dialogs = []\<rparr>))"

definition count_cells ::
  "('v, 'img) image_lib \<Rightarrow> ('v, 'img) image_window \<Rightarrow> database
     \<Rightarrow> ('v, 'img) image_window outcome" where
  "count_cells lib w db =
     (case current_image w of
        None \<Rightarrow> aborted w db
      | Some im \<Rightarrow>
          (case and_then (to_gray lib im) (\<lambda>gray.
                and_then (threshold_inv_otsu lib gray) (\<lambda>binary.
                and_then (morphologyEx lib binary MORPH_OPEN 3 2) (\<lambda>opening.
                and_then (connectedComponents lib opening) (\<lambda>(num_labels, labels).
                  unless_raised (imshow lib labels)
                    (and_then (image_path w) (\<lambda>path.
                       Inr (path, str_int (int num_labels - 1)))))))) of
             Inl e \<Rightarrow> caught w db ''Error en conteo: '' e
           | Inr (path, n) \<Rightarrow>
               \<lparr>window = w,
                store = save_image_analysis db path ''cell_count''
                          (PDict [(''method'', PStr ''connected_components'')])
                          (PStr n) (iw_user_id w),
                status = Completed, dialogs = []\<rparr>))"

definition save_analysis ::
  "('v, 'img) image_lib \<Rightarrow> ('v, 'img) image_window \<Rightarrow> database \<Rightarrow> string
     \<Rightarrow> ('v, 'img) image_window outcome" where
  "save_analysis lib w db filepath =
     (case current_image w of
        None \<Rightarrow> aborted w db
      | Some im \<Rightarrow>
          if current_image_path w = None \<or> filepath = '''' then aborted w db
          else
            case (if img_ndim lib im = 2 then imwrite lib filepath im
                  else (case cvtColor lib im COLOR_RGB2BGR of
                          Inl e \<Rightarrow> Some e
                        | Inr bgr \<Rightarrow> imwrite lib filepath bgr)) of
              Some e \<Rightarrow> caught w db ''Error al guardar: '' e
            | None \<Rightarrow>
                \<lparr>window = w, store = db, status = Completed,
                 dialogs = [Information Exito ''Imagen guardada'']\<rparr>)"

section \<open>The OpenCV calls on 8-bit images\<close>

text \<open>
  OpenCV is a library that the program calls; its code is not part of the repository.
  To run the cell count on pictures, the calls it makes are written out here as OpenCV
  documents them for 8-bit images: an image is a grid of grey values (one channel) or of
  blue-green-red triples (three channels), given as its rows.
\<close>

datatype image = Gray "nat list list" | BGR "(nat \<times> nat \<times> nat) list list"

fun image_ndim :: "image \<Rightarrow> nat" where
  "image_ndim (Gray rows) = 2"
| "image_ndim (BGR rows) = 3"

text \<open>
  \<^verbatim>\<open>cv2.cvtColor\<close>: the grey value of a pixel is 0.299 R + 0.587 G + 0.114 B, computed
  in fixed point with 14 bits; the two colour orders are swaps of the first and third
  channel. A one-channel image is rejected.
\<close>

definition bgr2gray :: "nat \<times> nat \<times> nat \<Rightarrow> nat" where
  "bgr2gray p = (case p of (b, g, r) \<Rightarrow> (r * 4899 + g * 9617 + b * 1868 + 8192) div 16384)"

definition swap_channels :: "nat \<times> nat \<times> nat \<Rightarrow> nat \<times> nat \<times> nat" where
  "swap_channels p = (case p of (a, b, c) \<Rightarrow> (c, b, a))"

fun cv_cvtColor :: "image \<Rightarrow> color_code \<Rightarrow> exn + image" where
  "cv_cvtColor (BGR rows) COLOR_BGR2GRAY = Inr (Gray (map (map bgr2gray) rows))"
| "cv_cvtColor (BGR rows) COLOR_BGR2RGB = Inr (BGR (map (map swap_channels) rows))"
| "cv_cvtColor (BGR rows) COLOR_RGB2BGR = Inr (BGR (map (map swap_channels) rows))"
| "cv_cvtColor (Gray rows) c = Inl (Exn ''Invalid number of channels in input image'')"

text \<open>
  \<^verbatim>\<open>cv2.threshold(src, thresh, 255, cv2.THRESH_BINARY_INV)\<close>: a pixel above the threshold
  becomes 0, every other pixel 255. With \<^verbatim>\<open>THRESH_OTSU\<close> the threshold is the one that
  Otsu's method selects from the histogram, a computation in floating point: it is the
  parameter \<open>otsu\<close>. The flag needs a one-channel image.
\<close>

definition threshold_binary_inv :: "nat \<Rightarrow> nat list list \<Rightarrow> nat list list" where
  "threshold_binary_inv thresh rows = map (map (\<lambda>p. if thresh < p then 0 else 255)) rows"

fun cv_threshold_inv_otsu :: "(nat list list \<Rightarrow> nat) \<Rightarrow> image \<Rightarrow> exn + image" where
  "cv_threshold_inv_otsu otsu (Gray rows) = Inr (Gray (threshold_binary_inv (otsu rows) rows))"
| "cv_threshold_inv_otsu otsu (BGR rows) = Inl (Exn ''THRESH_OTSU needs an 8-bit one-channel image'')"

text \<open>
  Erosion and dilation with a square kernel of ones of radius \<open>r\<close> (size 2 r + 1,
  anchored at its centre): the minimum, or the maximum, over the pixels of the image that
  the kernel covers. With the default border the pixels outside the image do not count.
\<close>

definition covered :: "nat \<Rightarrow> nat list list \<Rightarrow> nat \<Rightarrow> nat \<Rightarrow> nat list" where
  "covered r rows i j =
     concat (map (\<lambda>a. map (\<lambda>b. rows ! a ! b)
                          [j - r ..< min (length (rows ! a)) (j + r + 1)])
               [i - r ..< min (length rows) (i + r + 1)])"

definition erode :: "nat \<Rightarrow> nat list list \<Rightarrow> nat list list" where
  "erode r rows =
     map (\<lambda>i. map (\<lambda>j. fold min (covered r rows i j) 255) [0 ..< length (rows ! i)])
       [0 ..< length rows]"

definition dilate :: "nat \<Rightarrow> nat list list \<Rightarrow> nat list list" where
  "dilate r rows =
     map (\<lambda>i. map (\<lambda>j. fold max (covered r rows i j) 0) [0 ..< length (rows ! i)])
       [0 ..< length rows]"

text \<open>
  \<^verbatim>\<open>cv2.morphologyEx(src, op, kernel, iterations=n)\<close> with a \<open>k\<close> by \<open>k\<close> kernel of ones:
  opening erodes \<open>n\<close> times and then dilates \<open>n\<close> times, closing does the reverse, and
  the gradient is the dilated image minus the eroded one.
\<close>

fun iterated :: "nat \<Rightarrow> ('a \<Rightarrow> 'a) \<Rightarrow> 'a \<Rightarrow> 'a" where
  "iterated 0 f x = x"
| "iterated (Suc n) f x = iterated n f (f x)"

fun morph_rows :: "cv_morph \<Rightarrow> nat \<Rightarrow> nat \<Rightarrow> nat list list \<Rightarrow> nat list list" where
  "morph_rows MORPH_OPEN k n rows =
     iterated n (dilate (k div 2)) (iterated n (erode (k div 2)) rows)"
| "morph_rows MORPH_CLOSE k n rows =
     iterated n (erode (k div 2)) (iterated n (dilate (k div 2)) rows)"
| "morph_rows MORPH_GRADIENT k n rows =
     map2 (map2 (-)) (iterated n (dilate (k div 2)) rows) (iterated n (erode (k div 2)) rows)"

text \<open>A three-channel image is processed channel by channel.\<close>

definition per_channel ::
  "(nat list list \<Rightarrow> nat list list) \<Rightarrow> (nat \<times> nat \<times> nat) list list
     \<Rightarrow> (nat \<times> nat \<times> nat) list list" where
  "per_channel f rows =
     map2 (\<lambda>bs gr. map2 (\<lambda>b (g, r). (b, g, r)) bs gr)
       (f (map (map fst) rows))
       (map2 zip (f (map (map (fst \<circ> snd)) rows)) (f (map (map (snd \<circ> snd)) rows)))"

fun cv_morphologyEx :: "image \<Rightarrow> cv_morph \<Rightarrow> nat \<Rightarrow> nat \<Rightarrow> exn + image" where
  "cv_morphologyEx (Gray rows) m k n = Inr (Gray (morph_rows m k n rows))"
| "cv_morphologyEx (BGR rows) m k n = Inr (BGR (per_channel (morph_rows m k n) rows))"

text \<open>
  \<^verbatim>\<open>cv2.connectedComponents\<close> with its default connectivity 8: the pixels that are not 0
  are grouped into regions of pixels that touch by a side or a corner. The regions are
  built by adding the pixels one at a time: a new pixel joins all regions it touches
  into one. The number of labels is the number of regions plus one, for the background
  label 0. In the label image a pixel carries the number of its region; the order in
  which OpenCV numbers the regions is not modelled.
\<close>

definition adjacent8 :: "nat \<times> nat \<Rightarrow> nat \<times> nat \<Rightarrow> bool" where
  "adjacent8 p q \<longleftrightarrow>
     fst p \<le> fst q + 1 \<and> fst q \<le> fst p + 1 \<and> snd p \<le> snd q + 1 \<and> snd q \<le> snd p + 1"

definition touches :: "nat \<times> nat \<Rightarrow> (nat \<times> nat) list \<Rightarrow> bool" where
  "touches p region = list_ex (adjacent8 p) region"

definition add_pixel :: "nat \<times> nat \<Rightarrow> (nat \<times> nat) list list \<Rightarrow> (nat \<times> nat) list list" where
  "add_pixel p regions =
     filter (\<lambda>c. \<not> touches p c) regions @ [concat (filter (touches p) regions) @ [p]]"

definition foreground :: "nat list list \<Rightarrow> (nat \<times> nat) list" where
  "foreground rows =
     concat (map (\<lambda>i. map (\<lambda>j. (i, j)) (filter (\<lambda>j. rows ! i ! j \<noteq> 0) [0 ..< length (rows ! i)]))
               [0 ..< length rows])"

definition regions :: "nat list list \<Rightarrow> (nat \<times> nat) list list" where
  "regions rows = fold add_pixel (foreground rows) []"

definition label_of :: "(nat \<times> nat) list list \<Rightarrow> nat \<times> nat \<Rightarrow> nat" where
  "label_of rs p = (case find (\<lambda>(k, c). p \<in> set c) (enumerate 1 rs) of
                      None \<Rightarrow> 0 | Some (k, c) \<Rightarrow> k)"

definition label_image :: "nat list list \<Rightarrow> nat list list" where
  "label_image rows =
     map (\<lambda>i. map (\<lambda>j. label_of (regions rows) (i, j)) [0 ..< length (rows ! i)])
       [0 ..< length rows]"

fun cv_connectedComponents :: "image \<Rightarrow> exn + nat \<times> image" where
  "cv_connectedComponents (Gray rows) =
     Inr (Suc (length (regions rows)), Gray (label_image rows))"
| "cv_connectedComponents (BGR rows) = Inl (Exn ''connectedComponents needs a one-channel image'')"

text \<open>
  The library record with these calls; reading, writing and display, which depend on
  the files and the screen, come from the record \<open>io\<close>.
\<close>

definition opencv ::
  "(nat list list \<Rightarrow> nat) \<Rightarrow> ('v, image) image_lib \<Rightarrow> ('v, image) image_lib" where
  "opencv otsu io =
     io\<lparr>img_ndim := image_ndim, cvtColor := cv_cvtColor, morphologyEx := cv_morphologyEx,
        threshold_inv_otsu := cv_threshold_inv_otsu otsu,
        connectedComponents := cv_connectedComponents\<rparr>"

text \<open>
  The cell count on a grid of grey values: inverse threshold, opening with a 3 by 3
  kernel and two iterations, number of regions.
\<close>

definition count_regions :: "nat \<Rightarrow> nat list list \<Rightarrow> nat" where
  "count_regions thresh rows =
     length (regions (morph_rows MORPH_OPEN 3 2 (threshold_binary_inv thresh rows)))"

definition is_binary :: "nat list list \<Rightarrow> bool" where
  "is_binary rows = list_all (list_all (\<lambda>p. p = 0 \<or> p = 255)) rows"

section \<open>The audit trail\<close>

text \<open>
  The three log tables together are the audit trail. The records that a run added are
  the rows beyond the old length of each table; a run extends the trail when the old
  rows are still there, in place, and the users are untouched.
\<close>

datatype audit = Dicom dicom_row | Image image_row | Signal signal_row


fun audit_path :: "audit \<Rightarrow> string" where
  "audit_path (Dicom r) = dicom_path r"
| "audit_path (Image r) = i_file_path r"
| "audit_path (Signal r) = s_file_path r"

definition new_records :: "database \<Rightarrow> database \<Rightarrow> audit list" where
  "new_records db db' =
     map Dicom (drop (length (dicom_files db)) (dicom_files db'))
     @ map Image (drop (length (image_analysis db)) (image_analysis db'))
     @ map Signal (drop (length (signal_analysis db)) (signal_analysis db'))"

definition extends :: "database \<Rightarrow> database \<Rightarrow> bool" where
  "extends db db' \<longleftrightarrow>
     users db' = users db
     \<and> take (length (dicom_files db)) (dicom_files db') = dicom_files db
     \<and> take (length (image_analysis db)) (image_analysis db') = image_analysis db
     \<and> take (length (signal_analysis db)) (signal_analysis db') = signal_analysis db"

text \<open>The signal record that a run added, when it added exactly one record and it is one.\<close>

definition appended_signal :: "database \<Rightarrow> database \<Rightarrow> signal_row option" where
  "appended_signal db db' =
     (case new_records db db' of
        [Signal r] \<Rightarrow> if extends db db' then Some r else None
      | _ \<Rightarrow> None)"


section \<open>The state of the sliders\<close>

text \<open>
  The position of an axis in the shape of the volume, and the condition that every state
  of the three sliders meets while the window lives: the range starts at 0 and the value
  is not negative.
\<close>

fun axis_index :: "axis \<Rightarrow> nat" where
  "axis_index Axial = 0"
| "axis_index Coronal = 1"
| "axis_index Sagital = 2"

definition slider_ok :: "slider \<Rightarrow> bool" where
  "slider_ok s \<longleftrightarrow> minimum s = 0 \<and> 0 \<le> slider_value s"

definition sliders_ok :: "('v, 'img) image_window \<Rightarrow> bool" where
  "sliders_ok w \<longleftrightarrow>
     slider_ok (slider_axial w) \<and> slider_ok (slider_coronal w) \<and> slider_ok (slider_sagital w)"

text \<open>The slider that the loading loop leaves for an axis of extent \<open>n\<close>.\<close>

definition slider_for :: "nat \<Rightarrow> slider" where
  "slider_for n =
     \<lparr>minimum = 0, maximum = int n - 1, slider_value = int n div 2, enabled = True\<rparr>"

fun crashed :: "status \<Rightarrow> bool" where
  "crashed (Crashed e) = True"
| "crashed s = False"

section \<open>Sample states\<close>

text \<open>
  A store holding the seed account of the image role, hashed by a stand-in digest
  (string reversal), used to run the operations on concrete inputs.
\<close>

definition db_one_user :: database where
  "db_one_user = empty_db\<lparr>users := [\<lparr>u_id = 1, username = ''admin_img'',
      password = ''321nimda'', user_type = ''imagen''\<rparr>], users_seq := 1\<rparr>"

text \<open>Login windows with both fields filled in.\<close>

definition filled_login :: "('v, 'img, 'arr, 'col) login_window" where
  "filled_login = LoginWindow_init\<lparr>lw_username := ''ana'', lw_password := ''clave'',
     btn_imagen := False\<rparr>"

definition seed_login :: "('v, 'img, 'arr, 'col) login_window" where
  "seed_login = LoginWindow_init\<lparr>lw_username := ''admin_img'',
     lw_password := ''admin123''\<rparr>"

text \<open>
  Stand-ins for the libraries, to run the handlers: arrays and columns are lists of
  natural numbers, one file of each kind exists, every drawing call succeeds, and a
  number is printed with \<^verbatim>\<open>.00\<close> after it.
\<close>

definition sample_mat_lib :: "(nat list, nat) mat_lib" where
  "sample_mat_lib =
     \<lparr>loadmat = (\<lambda>p. if p = ''ecg.mat''
                      then Inr [(''__header__'', []), (''ecg'', [1, 2, 3])]
                      else Inl (Exn ''No such file'')),
      arr_ndim = (\<lambda>a. 1),
      arr_T = (\<lambda>a. a),
      ax_plot = (\<lambda>a. None),
      np_mean = (\<lambda>a. Inr (sum_list a div length a)),
      np_std = (\<lambda>a. Inr 0),
      np_max = (\<lambda>a. Inr (fold max a 0)),
      np_min = (\<lambda>a. Inr (fold min a (fold max a 0))),
      format_2f = (\<lambda>n. Inr (str_nat n @ ''.00''))\<rparr>"

definition sample_csv_lib :: "(nat list, nat) csv_lib" where
  "sample_csv_lib =
     \<lparr>read_csv = (\<lambda>p. if p = ''datos.csv''
                       then Inr [(''t'', [0, 1, 2, 3]), (''v'', [1, 2, 3, 4])]
                       else Inl (Exn ''No such file'')),
      is_number = (\<lambda>c. True),
      ax_scatter = (\<lambda>x y. None),
      ax_plot_col = (\<lambda>y. None),
      col_mean = (\<lambda>a. Inr (sum_list a div length a)),
      col_std = (\<lambda>a. Inr 0),
      col_max = (\<lambda>a. Inr (fold max a 0)),
      col_min = (\<lambda>a. Inr (fold min a (fold max a 0))),
      col_format_2f = (\<lambda>n. Inr (str_nat n @ ''.00'')),
      col_len = length,
      value_counts_to_string = (\<lambda>c. Inr '''')\<rparr>"

text \<open>The signal window of user 2 after loading the two sample files.\<close>

definition loaded_signal_window :: "(nat list, nat list) signal_window" where
  "loaded_signal_window =
     window (load_csv sample_csv_lib
       (window (load_mat sample_mat_lib (SignalExpertWindow_init 2) empty_db ''ecg.mat''))
       empty_db ''datos.csv'')"

text \<open>
  Stand-ins for the imaging libraries: a directory with two slices of two by two
  voxels (listed out of order, next to a file that is no slice), one volume file, one
  readable picture; images are rows of grey values, every drawing and writing call
  succeeds, and the labelling finds three labels.
\<close>

definition sample_image_lib :: "(nat, nat list list) image_lib" where
  "sample_image_lib =
     \<lparr>listdir = (\<lambda>d. if d = ''serie'' then Inr [''b.dcm'', ''notas.txt'', ''a.dcm'']
                      else Inl (Exn ''No such directory'')),
      dcmread = (\<lambda>d f.
        if f = ''a.dcm'' then
          Inr \<lparr>ImagePositionPatient = Some [0, 0, 1],
               pixel_array = Inr (NDArray [2, 2] [1, 2, 3, 4]),
               PatientName = Some ''Ana'', PatientID = None\<rparr>
        else if f = ''b.dcm'' then
          Inr \<lparr>ImagePositionPatient = Some [0, 0, 2],
               pixel_array = Inr (NDArray [2, 2] [5, 6, 7, 8]),
               PatientName = Some ''Ana'', PatientID = None\<rparr>
        else Inl (Exn ''not a DICOM file'')),
      imshow_slice = (\<lambda>a. None),
      Nifti1Image = (\<lambda>v. case v of None \<Rightarrow> Some (Exn ''no data'') | Some a \<Rightarrow> None),
      nib_save = (\<lambda>v p. None),
      nib_load = (\<lambda>p. if p = ''vol.nii'' then Inr (NDArray [4, 3, 2] (replicate 24 0))
                       else Inl (Exn ''No such file'')),
      imread = (\<lambda>p. if p = ''celulas.png'' then Some [[0, 255], [255, 0]] else None),
      img_ndim = (\<lambda>im. 2),
      cvtColor = (\<lambda>im c. Inr im),
      morphologyEx = (\<lambda>im m k n. Inr im),
      threshold_inv_otsu = (\<lambda>im. Inr im),
      connectedComponents = (\<lambda>im. Inr (3, im)),
      imshow = (\<lambda>im. None),
      imwrite = (\<lambda>p im. None)\<rparr>"





text \<open>A white picture of 7 by 7 pixels with one black blob of 3 by 3 pixels in the middle.\<close>

definition one_dark_blob_3 :: image where
  "one_dark_blob_3 =
     (let k = (0, 0, 0); w = (255, 255, 255) in
      BGR
       [[w, w, w, w, w, w, w],
        [w, w, w, w, w, w, w],
        [w, w, k, k, k, w, w],
        [w, w, k, k, k, w, w],
        [w, w, k, k, k, w, w],
        [w, w, w, w, w, w, w],
        [w, w, w, w, w, w, w]])"

text \<open>A black picture of 7 by 9 pixels with two white blobs of 3 by 3 pixels, one pixel apart.\<close>

definition two_bright_blobs_3 :: image where
  "two_bright_blobs_3 =
     (let k = (0, 0, 0); w = (255, 255, 255) in
      BGR
       [[k, k, k, k, k, k, k, k, k],
        [k, w, w, w, k, w, w, w, k],
        [k, w, w, w, k, w, w, w, k],
        [k, w, w, w, k, w, w, w, k],
        [k, k, k, k, k, k, k, k, k],
        [k, k, k, k, k, k, k, k, k],
        [k, k, k, k, k, k, k, k, k]])"

text \<open>A white picture of 7 by 13 pixels with two black blobs of 5 by 5 pixels, one pixel apart.\<close>

definition two_dark_blobs_5 :: image where
  "two_dark_blobs_5 =
     (let k = (0, 0, 0); w = (255, 255, 255) in
      BGR
       [[w, w, w, w, w, w, w, w, w, w, w, w, w],
        [w, k, k, k, k, k, w, k, k, k, k, k, w],
        [w, k, k, k, k, k, w, k, k, k, k, k, w],
        [w, k, k, k, k, k, w, k, k, k, k, k, w],
        [w, k, k, k, k, k, w, k, k, k, k, k, w],
        [w, k, k, k, k, k, w, k, k, k, k, k, w],
        [w, w, w, w, w, w, w, w, w, w, w, w, w]])"

text \<open>
  The files and the screen for the pictures: three picture files can be read, every
  display and write succeeds, and there are no volumes. On a picture with the two grey
  values 0 and 255 Otsu's criterion has the same value at every threshold from 0 to 254,
  and OpenCV returns the first of them, 0.
\<close>

definition picture_io :: "(nat, image) image_lib" where
  "picture_io =
     \<lparr>listdir = (\<lambda>d. Inl (Exn ''No such directory'')),
      dcmread = (\<lambda>d f. Inl (Exn ''not a DICOM file'')),
      imshow_slice = (\<lambda>a. None),
      Nifti1Image = (\<lambda>v. Some (Exn ''no data'')),
      nib_save = (\<lambda>v p. None),
      nib_load = (\<lambda>p. Inl (Exn ''No such file'')),
      imread = (\<lambda>p. if p = ''oscura3.png'' then Some one_dark_blob_3
                     else if p = ''claras3.png'' then Some two_bright_blobs_3
                     else if p = ''oscuras5.png'' then Some two_dark_blobs_5
                     else None),
      img_ndim = image_ndim,
      cvtColor = cv_cvtColor,
      morphologyEx = cv_morphologyEx,
      threshold_inv_otsu = cv_threshold_inv_otsu (\<lambda>rows. 0),
      connectedComponents = cv_connectedComponents,
      imshow = (\<lambda>im. None),
      imwrite = (\<lambda>p im. None)\<rparr>"

definition picture_lib :: "(nat, image) image_lib" where
  "picture_lib = opencv (\<lambda>rows. 0) picture_io"

text \<open>The image window of user 1 after loading a picture file.\<close>

definition picture_window :: "string \<Rightarrow> (nat, image) image_window" where
  "picture_window p = window (load_image picture_lib (ImageExpertWindow_init 1) empty_db p)"



text \<open>The picture with the two dark blobs of 5 by 5 pixels, in grey.\<close>

definition gray_dark_5 :: "nat list list" where
  "gray_dark_5 =
    [[255, 255, 255, 255, 255, 255, 255, 255, 255, 255, 255, 255, 255],
     [255, 0, 0, 0, 0, 0, 255, 0, 0, 0, 0, 0, 255],
     [255, 0, 0, 0, 0, 0, 255, 0, 0, 0, 0, 0, 255],
     [255, 0, 0, 0, 0, 0, 255, 0, 0, 0, 0, 0, 255],
     [255, 0, 0, 0, 0, 0, 255, 0, 0, 0, 0, 0, 255],
     [255, 0, 0, 0, 0, 0, 255, 0, 0, 0, 0, 0, 255],
     [255, 255, 255, 255, 255, 255, 255, 255, 255, 255, 255, 255, 255]]"

section \<open>Properties of the store\<close>

lemma fold_max_ge: "x \<in> set ids \<Longrightarrow> x \<le> fold max ids (s::nat)"
proof (induction ids arbitrary: s)
  case Nil
  then show ?case by simp
next
  case (Cons a ids)
  have mono: "\<And>t. t \<le> fold max ids (t::nat)"
  proof -
    fix t :: nat
    show "t \<le> fold max ids t"
    proof (induction ids arbitrary: t)
      case Nil
      show ?case by simp
    next
      case (Cons b bs)
      have "t \<le> max b t" by simp
      also have "max b t \<le> fold max bs (max b t)" by (rule Cons.IH)
      finally show ?case by simp
    qed
  qed
  show ?case
  proof (cases "x = a")
    case True
    have "a \<le> max a s" by simp
    also have "max a s \<le> fold max ids (max a s)" by (rule mono)
    finally show ?thesis using True by simp
  next
    case False
    with Cons.prems have "x \<in> set ids" by simp
    then show ?thesis using Cons.IH by simp
  qed
qed

lemma next_rowid_fresh: "next_rowid seq ids \<notin> set ids"
proof
  assume "next_rowid seq ids \<in> set ids"
  then have "next_rowid seq ids \<le> fold max ids seq" by (rule fold_max_ge)
  then show False by (simp add: next_rowid_def)
qed

lemma find_append_new:
  "\<forall>r \<in> set rs. \<not> P r \<Longrightarrow> P x \<Longrightarrow> find P (rs @ [x]) = Some x"
  by (induction rs) auto

lemma find_none_iff: "find P rs = None \<longleftrightarrow> (\<forall>r \<in> set rs. \<not> P r)"
  by (induction rs) auto

section \<open>The credential store\<close>

lemma register_user_new:
  assumes "uname \<notin> set (map username (users db))"
  shows "register_user sha db uname pw utype =
           (db\<lparr>users := users db @
                 [\<lparr>u_id = next_rowid (users_seq db) (map u_id (users db)),
                   username = uname, password = sha pw, user_type = utype\<rparr>],
               users_seq := next_rowid (users_seq db) (map u_id (users db))\<rparr>, True)"
  using assms by (simp add: register_user_def Let_def)

lemma login_user_appended:
  assumes "uname \<notin> set (map username rows)"
  shows "login_user sha (db\<lparr>users := rows @
             [\<lparr>u_id = i, username = uname, password = sha pw, user_type = utype\<rparr>],
           users_seq := k\<rparr>) uname pw = Some (i, utype)"
proof -
  let ?P = "\<lambda>r. username r = uname \<and> password r = sha pw"
  let ?x = "\<lparr>u_id = i, username = uname, password = sha pw, user_type = utype\<rparr>"
  from assms have "\<forall>r \<in> set rows. \<not> ?P r" by auto
  moreover have "?P ?x" by simp
  ultimately have "find ?P (rows @ [?x]) = Some ?x" by (rule find_append_new)
  then show ?thesis by (simp add: login_user_def)
qed

text \<open>
  C1. Registering a username that is not in the store, with a non-empty username and
  password, succeeds and appends one user row with a row id that no earlier user has;
  authenticating afterwards with the same username and password returns that row id
  together with the role given at registration.
\<close>

theorem register_then_login:
  assumes "uname \<noteq> ''''" and "pw \<noteq> ''''"
    and "uname \<notin> set (map username (users db))"
  shows "snd (register_user sha db uname pw utype) = True
       \<and> users (fst (register_user sha db uname pw utype)) =
           users db @ [\<lparr>u_id = next_rowid (users_seq db) (map u_id (users db)),
                        username = uname, password = sha pw, user_type = utype\<rparr>]
       \<and> next_rowid (users_seq db) (map u_id (users db)) \<notin> set (map u_id (users db))
       \<and> login_user sha (fst (register_user sha db uname pw utype)) uname pw =
           Some (next_rowid (users_seq db) (map u_id (users db)), utype)"
proof -
  note reg = register_user_new [OF assms(3), of sha pw utype]
  have "login_user sha (fst (register_user sha db uname pw utype)) uname pw =
          Some (next_rowid (users_seq db) (map u_id (users db)), utype)"
    unfolding reg fst_conv by (rule login_user_appended [OF assms(3)])
  moreover have "next_rowid (users_seq db) (map u_id (users db)) \<notin> set (map u_id (users db))"
    by (rule next_rowid_fresh)
  ultimately show ?thesis by (simp add: reg)
qed

theorem register_then_login_witness:
  "''ana'' \<noteq> '''' \<and> ''clave'' \<noteq> '''' \<and> ''ana'' \<notin> set (map username (users db_one_user))
   \<and> snd (register_user rev db_one_user ''ana'' ''clave'' ''senal'') = True
   \<and> login_user rev (fst (register_user rev db_one_user ''ana'' ''clave'' ''senal''))
        ''ana'' ''clave'' = Some (2, ''senal'')"
proof -
  have h: "''ana'' \<notin> set (map username (users db_one_user))"
    by (simp add: db_one_user_def empty_db_def)
  have n: "next_rowid (users_seq db_one_user) (map u_id (users db_one_user)) = 2"
    by (simp add: db_one_user_def empty_db_def next_rowid_def)
  show ?thesis
    using register_then_login [of "''ana''" "''clave''" db_one_user rev "''senal''"] h n
    by simp
qed

text \<open>
  C2. When the store already holds a user with the given username, registering that
  username again, with any password and role, returns failure and leaves the whole store
  as it was: no row is added and the existing row keeps its id, password hash and role.
\<close>

theorem register_duplicate_rejected:
  assumes "uname \<in> set (map username (users db))"
  shows "snd (register_user sha db uname pw utype) = False
       \<and> fst (register_user sha db uname pw utype) = db
       \<and> users (fst (register_user sha db uname pw utype)) = users db"
  using assms by (simp add: register_user_def Let_def)

theorem register_duplicate_rejected_witness:
  "''admin_img'' \<in> set (map username (users db_one_user))
   \<and> register_user rev db_one_user ''admin_img'' ''otra'' ''senal'' = (db_one_user, False)"
proof -
  have h: "''admin_img'' \<in> set (map username (users db_one_user))"
    by (simp add: db_one_user_def empty_db_def)
  show ?thesis
    using register_duplicate_rejected [OF h, of rev "''otra''" "''senal''"] h
    by (simp add: prod_eq_iff)
qed

text \<open>
  C3. Authenticating with a username that is not registered, and authenticating with a
  registered username whose stored digest differs from the digest of the submitted
  password, both return None: the caller sees the same value in the two cases.
\<close>

theorem login_failures_indistinguishable:
  assumes "u1 \<notin> set (map username (users db))"
    and "u2 \<in> set (map username (users db))"
    and "\<forall>r \<in> set (users db). username r = u2 \<longrightarrow> password r \<noteq> sha p2"
  shows "login_user sha db u1 p1 = None \<and> login_user sha db u2 p2 = None
       \<and> login_user sha db u1 p1 = login_user sha db u2 p2"
proof -
  have "find (\<lambda>r. username r = u1 \<and> password r = sha p1) (users db) = None"
    using assms(1) by (auto simp: find_none_iff)
  moreover have "find (\<lambda>r. username r = u2 \<and> password r = sha p2) (users db) = None"
    using assms(3) by (auto simp: find_none_iff)
  ultimately show ?thesis by (simp add: login_user_def)
qed

theorem login_failures_indistinguishable_witness:
  "''nadie'' \<notin> set (map username (users db_one_user))
   \<and> ''admin_img'' \<in> set (map username (users db_one_user))
   \<and> map password (users db_one_user) = [''321nimda''] \<and> rev ''mala'' = ''alam''
   \<and> login_user rev db_one_user ''nadie'' ''admin123'' = None
   \<and> login_user rev db_one_user ''admin_img'' ''mala'' = None"
proof -
  have h1: "''nadie'' \<notin> set (map username (users db_one_user))"
    by (simp add: db_one_user_def empty_db_def)
  have h2: "''admin_img'' \<in> set (map username (users db_one_user))"
    by (simp add: db_one_user_def empty_db_def)
  have h3: "\<forall>r \<in> set (users db_one_user). username r = ''admin_img'' \<longrightarrow> password r \<noteq> rev ''mala''"
    by (simp add: db_one_user_def empty_db_def)
  show ?thesis
    using login_failures_indistinguishable
            [of "''nadie''" db_one_user "''admin_img''" rev "''mala''" "''admin123''"]
          h1 h2 h3
    by (simp add: db_one_user_def empty_db_def)
qed

text \<open>
  C8. The store's register operation has no non-emptiness check: with the empty string
  as username, and any password and role, it succeeds and appends a user whose username
  is the empty string, whenever no such user exists. The rejection of empty fields is
  done by the register handler of the login window, which then shows a warning and does
  not reach the store; with both fields filled in, the handler's effect on the store is
  that of the store's register operation.
\<close>

theorem register_user_no_empty_check:
  "('''' \<notin> set (map username (users db)) \<longrightarrow>
      snd (register_user sha db '''' pw utype) = True
      \<and> users (fst (register_user sha db '''' pw utype)) =
          users db @ [\<lparr>u_id = next_rowid (users_seq db) (map u_id (users db)),
                       username = '''', password = sha pw, user_type = utype\<rparr>])
   \<and> (lw_username w1 = '''' \<or> lw_password w1 = '''' \<longrightarrow>
        store (handle_register sha w1 db) = db
        \<and> status (handle_register sha w1 db) = Aborted
        \<and> dialogs (handle_register sha w1 db) =
            [Warning ''Error'' ''Por favor complete todos los campos''])
   \<and> (lw_username w2 \<noteq> '''' \<and> lw_password w2 \<noteq> '''' \<longrightarrow>
        store (handle_register sha w2 db) =
          fst (register_user sha db (lw_username w2) (lw_password w2)
                 (if btn_imagen w2 then ''imagen'' else ''senal'')))"
proof (intro conjI impI)
  assume "'''' \<notin> set (map username (users db))"
  then show "snd (register_user sha db '''' pw utype) = True"
    by (simp add: register_user_new)
next
  assume "'''' \<notin> set (map username (users db))"
  then show "users (fst (register_user sha db '''' pw utype)) =
          users db @ [\<lparr>u_id = next_rowid (users_seq db) (map u_id (users db)),
                       username = '''', password = sha pw, user_type = utype\<rparr>]"
    by (simp add: register_user_new)
next
  assume "lw_username w1 = '''' \<or> lw_password w1 = ''''"
  then show "store (handle_register sha w1 db) = db"
    by (auto simp: handle_register_def)
next
  assume "lw_username w1 = '''' \<or> lw_password w1 = ''''"
  then show "status (handle_register sha w1 db) = Aborted"
    by (auto simp: handle_register_def)
next
  assume "lw_username w1 = '''' \<or> lw_password w1 = ''''"
  then show "dialogs (handle_register sha w1 db) =
            [Warning ''Error'' ''Por favor complete todos los campos'']"
    by (auto simp: handle_register_def)
next
  assume "lw_username w2 \<noteq> '''' \<and> lw_password w2 \<noteq> ''''"
  then show "store (handle_register sha w2 db) =
          fst (register_user sha db (lw_username w2) (lw_password w2)
                 (if btn_imagen w2 then ''imagen'' else ''senal''))"
    by (simp add: handle_register_def Let_def split: prod.splits bool.splits)
qed

theorem register_user_no_empty_check_witness:
  "'''' \<notin> set (map username (users db_one_user))
   \<and> snd (register_user rev db_one_user '''' '''' ''rol'') = True
   \<and> map username (users (fst (register_user rev db_one_user '''' '''' ''rol''))) =
       [''admin_img'', '''']
   \<and> lw_username (LoginWindow_init :: (nat, nat, nat, nat) login_window) = ''''
   \<and> store (handle_register rev (LoginWindow_init :: (nat, nat, nat, nat) login_window)
         db_one_user) = db_one_user
   \<and> lw_username (filled_login :: (nat, nat, nat, nat) login_window) \<noteq> ''''
   \<and> lw_password (filled_login :: (nat, nat, nat, nat) login_window) \<noteq> ''''
   \<and> map username (users (store (handle_register rev
         (filled_login :: (nat, nat, nat, nat) login_window) db_one_user))) =
       [''admin_img'', ''ana'']"
proof -
  have h: "'''' \<notin> set (map username (users db_one_user))"
    by (simp add: db_one_user_def empty_db_def)
  have r: "fst (register_user rev db_one_user ''ana'' ''clave'' ''senal'') =
        db_one_user\<lparr>users := users db_one_user @
          [\<lparr>u_id = 2, username = ''ana'', password = ''evalc'', user_type = ''senal''\<rparr>],
          users_seq := 2\<rparr>"
    by (simp add: register_user_def db_one_user_def empty_db_def next_rowid_def)
  show ?thesis
    using register_user_no_empty_check
            [of db_one_user rev "''''" "''rol''"
                "LoginWindow_init :: (nat, nat, nat, nat) login_window"
                "filled_login :: (nat, nat, nat, nat) login_window"] h r
    by (simp add: LoginWindow_init_def filled_login_def)
       (simp add: db_one_user_def empty_db_def)
qed

text \<open>
  C9. The role router is a two-way branch on the stored role string: the role
  \<^verbatim>\<open>'imagen'\<close> gives the image workflow, and every other role string, also one that is
  neither of the two roles the program registers, gives the signal workflow. The login
  handler hands the id and role that authentication returned to this router when it
  builds the main window.
\<close>

theorem MainWindow_two_way:
  "MainWindow uid ''imagen'' = ImageExpertWindow (ImageExpertWindow_init uid)
   \<and> (utype \<noteq> ''imagen'' \<longrightarrow>
        MainWindow uid utype = SignalExpertWindow (SignalExpertWindow_init uid))
   \<and> (lw_username w \<noteq> '''' \<and> lw_password w \<noteq> '''' \<and> main_window w = None
        \<and> login_user sha db (lw_username w) (lw_password w) = Some (i, r) \<longrightarrow>
        main_window (window (handle_login sha w db)) = Some (MainWindow i r))"
  by (simp add: MainWindow_def handle_login_def)

theorem MainWindow_two_way_witness:
  "''admin'' \<noteq> ''imagen''
   \<and> (MainWindow 7 ''admin'' :: (nat, nat, nat, nat) main_window) =
       SignalExpertWindow (SignalExpertWindow_init 7)
   \<and> login_user rev db_one_user ''admin_img'' ''admin123'' = Some (1, ''imagen'')
   \<and> main_window (window (handle_login rev
        (seed_login :: (nat, nat, nat, nat) login_window) db_one_user)) =
       Some (ImageExpertWindow (ImageExpertWindow_init 1))"
proof -
  have l: "login_user rev db_one_user ''admin_img'' ''admin123'' = Some (1, ''imagen'')"
    by (simp add: login_user_def db_one_user_def empty_db_def)
  show ?thesis
    using MainWindow_two_way
            [of 7 "''admin''" "seed_login :: (nat, nat, nat, nat) login_window"
                rev db_one_user 1 "''imagen''"] l
    by (simp add: seed_login_def LoginWindow_init_def MainWindow_def)
qed

section \<open>The audit trail of the signal workflow\<close>

lemma new_records_same: "new_records db db = []"
  by (simp add: new_records_def)

lemma extends_same: "extends db db"
  by (simp add: extends_def)

lemma new_records_signal:
  "new_records db (save_signal_analysis db p t a ps r u) =
     [Signal \<lparr>s_id = next_rowid (signal_seq db) (map s_id (signal_analysis db)),
              s_file_path = p, signal_type = t, s_analysis_type = a,
              s_parameters = ps, s_result = r, s_user_id = u\<rparr>]"
  by (simp add: new_records_def save_signal_analysis_def Let_def)

lemma extends_signal: "extends db (save_signal_analysis db p t a ps r u)"
  by (simp add: extends_def save_signal_analysis_def Let_def)

lemma appended_signal_saved:
  "appended_signal db (save_signal_analysis db p t a ps r u) =
     Some \<lparr>s_id = next_rowid (signal_seq db) (map s_id (signal_analysis db)),
           s_file_path = p, signal_type = t, s_analysis_type = a,
           s_parameters = ps, s_result = r, s_user_id = u\<rparr>"
  by (simp add: appended_signal_def new_records_signal extends_signal)

lemma plot_signal_path:
  "status (plot_signal lib w db) = Completed \<Longrightarrow>
   map_option s_file_path (appended_signal db (store (plot_signal lib w db))) = Some ''''"
  by (simp add: plot_signal_def Let_def aborted_def caught_def appended_signal_saved
           split: sum.splits if_splits)

lemma analyze_signal_path:
  "status (analyze_signal lib w db) = Completed \<Longrightarrow>
   map_option s_file_path (appended_signal db (store (analyze_signal lib w db))) = Some ''''"
  by (simp add: analyze_signal_def Let_def aborted_def caught_def appended_signal_saved
           split: sum.splits if_splits)

lemma plot_csv_path:
  "status (plot_csv lib w db) = Completed \<Longrightarrow>
   map_option s_file_path (appended_signal db (store (plot_csv lib w db))) = Some ''''"
  by (simp add: plot_csv_def Let_def aborted_def caught_def appended_signal_saved
           split: sum.splits if_splits)

lemma analyze_csv_path:
  "status (analyze_csv lib w db) = Completed \<Longrightarrow>
   map_option s_file_path (appended_signal db (store (analyze_csv lib w db))) = Some ''''"
  by (simp add: analyze_csv_def Let_def aborted_def caught_def appended_signal_saved
           split: sum.splits if_splits)

lemma load_mat_path:
  "status (load_mat lib w db fp) = Completed \<Longrightarrow>
   fp \<noteq> '''' \<and>
   map_option s_file_path (appended_signal db (store (load_mat lib w db fp))) = Some fp"
  by (simp add: load_mat_def Let_def aborted_def caught_def appended_signal_saved
           split: sum.splits if_splits)

lemma load_csv_path:
  "status (load_csv lib w db fp) = Completed \<Longrightarrow>
   fp \<noteq> '''' \<and>
   map_option s_file_path (appended_signal db (store (load_csv lib w db fp))) = Some fp"
  by (simp add: load_csv_def Let_def aborted_def caught_def appended_signal_saved
           split: sum.splits if_splits)

lemma loaded_signal_window_eq:
  "loaded_signal_window =
     \<lparr>sw_user_id = 2, mat_data = Some [(''__header__'', []), (''ecg'', [1, 2, 3])],
      signal_combo = \<lparr>items = [''ecg''], current_index = Some 0\<rparr>,
      df = Some [(''t'', [0, 1, 2, 3]), (''v'', [1, 2, 3, 4])],
      csv_x = \<lparr>items = [''t'', ''v''], current_index = Some 0\<rparr>,
      csv_y = \<lparr>items = [''t'', ''v''], current_index = Some 0\<rparr>\<rparr>"
  by (simp add: loaded_signal_window_def load_csv_def load_mat_def sample_csv_lib_def
        sample_mat_lib_def SignalExpertWindow_init_def addItems_def clear_def QComboBox_def)

text \<open>
  C10. When a plot or statistics operation of the signal workflow (plotting a MAT array,
  MAT statistics, plotting CSV columns, analysing a CSV column) runs to its end, the one
  signal record it appends has the empty string as its file path. When a load operation
  (MAT or CSV) runs to its end, the one signal record it appends has the path of the
  loaded file, which is not empty.
\<close>

theorem signal_plot_and_analysis_path_empty:
  "(status (plot_signal mlib w db) = Completed \<longrightarrow>
      map_option s_file_path (appended_signal db (store (plot_signal mlib w db))) = Some '''')
   \<and> (status (analyze_signal mlib w db) = Completed \<longrightarrow>
      map_option s_file_path (appended_signal db (store (analyze_signal mlib w db))) = Some '''')
   \<and> (status (plot_csv clib w db) = Completed \<longrightarrow>
      map_option s_file_path (appended_signal db (store (plot_csv clib w db))) = Some '''')
   \<and> (status (analyze_csv clib w db) = Completed \<longrightarrow>
      map_option s_file_path (appended_signal db (store (analyze_csv clib w db))) = Some '''')
   \<and> (status (load_mat mlib w db fp) = Completed \<longrightarrow>
      fp \<noteq> '''' \<and>
      map_option s_file_path (appended_signal db (store (load_mat mlib w db fp))) = Some fp)
   \<and> (status (load_csv clib w db fq) = Completed \<longrightarrow>
      fq \<noteq> '''' \<and>
      map_option s_file_path (appended_signal db (store (load_csv clib w db fq))) = Some fq)"
  using plot_signal_path [of mlib w db] analyze_signal_path [of mlib w db]
    plot_csv_path [of clib w db] analyze_csv_path [of clib w db]
    load_mat_path [of mlib w db fp] load_csv_path [of clib w db fq]
  by blast

theorem signal_plot_and_analysis_path_empty_witness:
  "status (plot_signal sample_mat_lib loaded_signal_window empty_db) = Completed
   \<and> status (analyze_signal sample_mat_lib loaded_signal_window empty_db) = Completed
   \<and> status (plot_csv sample_csv_lib loaded_signal_window empty_db) = Completed
   \<and> status (analyze_csv sample_csv_lib loaded_signal_window empty_db) = Completed
   \<and> status (load_mat sample_mat_lib loaded_signal_window empty_db ''ecg.mat'') = Completed
   \<and> status (load_csv sample_csv_lib loaded_signal_window empty_db ''datos.csv'') = Completed
   \<and> map_option s_file_path (appended_signal empty_db
         (store (plot_signal sample_mat_lib loaded_signal_window empty_db))) = Some ''''
   \<and> map_option s_file_path (appended_signal empty_db
         (store (analyze_signal sample_mat_lib loaded_signal_window empty_db))) = Some ''''
   \<and> map_option s_file_path (appended_signal empty_db
         (store (plot_csv sample_csv_lib loaded_signal_window empty_db))) = Some ''''
   \<and> map_option s_file_path (appended_signal empty_db
         (store (analyze_csv sample_csv_lib loaded_signal_window empty_db))) = Some ''''
   \<and> map_option s_file_path (appended_signal empty_db
         (store (load_mat sample_mat_lib loaded_signal_window empty_db ''ecg.mat''))) =
       Some ''ecg.mat''
   \<and> map_option s_file_path (appended_signal empty_db
         (store (load_csv sample_csv_lib loaded_signal_window empty_db ''datos.csv''))) =
       Some ''datos.csv''"
proof -
  have s1: "status (plot_signal sample_mat_lib loaded_signal_window empty_db) = Completed"
    by (simp add: loaded_signal_window_eq plot_signal_def sample_mat_lib_def currentText_def Let_def
          subscript_def and_then_def unless_raised_def)
  have s2: "status (analyze_signal sample_mat_lib loaded_signal_window empty_db) = Completed"
    by (simp add: loaded_signal_window_eq analyze_signal_def sample_mat_lib_def Let_def
          currentText_def subscript_def and_then_def)
  have s3: "status (plot_csv sample_csv_lib loaded_signal_window empty_db) = Completed"
    by (simp add: loaded_signal_window_eq plot_csv_def sample_csv_lib_def currentText_def Let_def
          subscript_def and_then_def unless_raised_def)
  have s4: "status (analyze_csv sample_csv_lib loaded_signal_window empty_db) = Completed"
    by (simp add: loaded_signal_window_eq analyze_csv_def sample_csv_lib_def Let_def
          currentText_def subscript_def and_then_def)
  have s5: "status (load_mat sample_mat_lib loaded_signal_window empty_db ''ecg.mat'') =
      Completed"
    by (simp add: load_mat_def sample_mat_lib_def)
  have s6: "status (load_csv sample_csv_lib loaded_signal_window empty_db ''datos.csv'') =
      Completed"
    by (simp add: load_csv_def sample_csv_lib_def)
  show ?thesis
    using signal_plot_and_analysis_path_empty
            [of sample_mat_lib loaded_signal_window empty_db sample_csv_lib
                "''ecg.mat''" "''datos.csv''"]
          s1 s2 s3 s4 s5 s6
    by simp
qed

section \<open>The audit trail of the two workflows\<close>

lemma put_slider_user [simp]: "iw_user_id (put_slider w a s) = iw_user_id w"
  by (cases a) simp_all










lemma load_dicom_completed:
  assumes "status (load_dicom lib w db d) = Completed"
  shows "\<exists>volume first_slice rest w'.
           d \<noteq> [] \<and> read_slices lib d = Inr (first_slice # rest, volume)
         \<and> set_sliders lib (w\<lparr>dicom_volume := Some volume\<rparr>)
               (zip [Axial, Coronal, Sagital] (shape volume)) = Inr w'
         \<and> update_dicom_view lib w' = None
         \<and> window (load_dicom lib w db d) = w'
         \<and> store (load_dicom lib w db d) =
              save_dicom_analysis db (or_default (PatientID first_slice) [])
                (or_default (PatientName first_slice) []) d [] (iw_user_id w')"
proof -
  from assms have d: "d \<noteq> []"
    by (auto simp: load_dicom_def aborted_def)
  from assms d obtain slices volume where r: "read_slices lib d = Inr (slices, volume)"
    by (cases "read_slices lib d") (auto simp: load_dicom_def caught_def)
  from assms d r obtain w' where s: "set_sliders lib (w\<lparr>dicom_volume := Some volume\<rparr>)
               (zip [Axial, Coronal, Sagital] (shape volume)) = Inr w'"
    by (cases "set_sliders lib (w\<lparr>dicom_volume := Some volume\<rparr>)
               (zip [Axial, Coronal, Sagital] (shape volume))")
       (auto simp: load_dicom_def)
  from assms d r s obtain first_slice rest where l: "slices = first_slice # rest"
    by (cases slices) (auto simp: load_dicom_def caught_def)
  from assms d r s l have u: "update_dicom_view lib w' = None"
    by (cases "update_dicom_view lib w'") (auto simp: load_dicom_def caught_def Let_def)
  from d r s l u show ?thesis
    by (simp add: load_dicom_def Let_def)
qed
















section \<open>The sliders after a volume load\<close>

lemma index_axis_Inr:
  "index_axis a k i = Inr b \<Longrightarrow>
     3 \<le> ndim a \<and> - int (shape a ! k) \<le> i \<and> i < int (shape a ! k)"
  by (auto simp: index_axis_def Let_def split: if_splits)

lemma update_dicom_view_None:
  assumes "update_dicom_view lib w = None" and "dicom_volume w = Some vol"
  shows "3 \<le> ndim vol
       \<and> - int (shape vol ! axis_index a) \<le> slider_value (get_slider w a)
       \<and> slider_value (get_slider w a) < int (shape vol ! axis_index a)"
proof -
  from assms obtain x y z where
    "index_axis vol 0 (slider_value (slider_axial w)) = Inr x"
    "index_axis vol 1 (slider_value (slider_coronal w)) = Inr y"
    "index_axis vol 2 (slider_value (slider_sagital w)) = Inr z"
    by (auto simp: update_dicom_view_def and_then_def split: sum.splits)
  then show ?thesis
    by (cases a) (auto dest: index_axis_Inr)
qed

lemma get_put_slider [simp]:
  "get_slider (put_slider w a s) b = (if a = b then s else get_slider w b)"
  by (cases a; cases b) simp_all

lemma put_put_slider [simp]: "put_slider (put_slider w a s) a t = put_slider w a t"
  by (cases a) simp_all

lemma put_slider_volume [simp]: "dicom_volume (put_slider w a s) = dicom_volume w"
  by (cases a) simp_all

lemma setMaximum_zero:
  assumes "slider_ok s"
  shows "slider_value (fst (setMaximum s (- 1))) = - 1" and "snd (setMaximum s (- 1))"
  using assms
  by (auto simp: slider_ok_def setMaximum_def setRange_def setValue_def bound_def Let_def)

lemma tune_positive:
  assumes "slider_ok s" and "0 < n"
  shows "setEnabled (fst (setValue (fst (setMaximum s (int n - 1))) (int n div 2))) True =
           slider_for n"
  using assms
  by (auto simp: slider_ok_def setMaximum_def setRange_def setValue_def bound_def Let_def
        setEnabled_def slider_for_def min_def max_def)


lemma set_slider_Inr:
  assumes step: "set_slider lib w a n = Inr w'"
    and vol: "dicom_volume w = Some vol"
    and shp: "3 \<le> ndim vol \<Longrightarrow> shape vol ! axis_index a = n"
    and ok: "slider_ok (get_slider w a)"
  shows "0 < n \<and> w' = put_slider w a (slider_for n)"
proof -
  let ?s = "get_slider w a"
  let ?r1 = "setMaximum ?s (int n - 1)"
  let ?w1 = "put_slider w a (fst ?r1)"
  have pos: "0 < n"
  proof (rule ccontr)
    assume "\<not> 0 < n"
    then have n: "n = 0" by simp
    have v: "slider_value (fst ?r1) = - 1" and c: "snd ?r1"
      using setMaximum_zero [OF ok] by (simp_all add: n)
    from step c have "update_dicom_view lib ?w1 = None"
      by (auto simp: set_slider_def Let_def split: option.splits)
    from update_dicom_view_None [OF this, of vol a] vol v shp n
    show False by simp
  qed
  from step have "w' = put_slider w a
      (setEnabled (fst (setValue (fst ?r1) (int n div 2))) True)"
    by (auto simp: set_slider_def Let_def split: option.splits if_splits)
  with tune_positive [OF ok pos] pos show ?thesis by simp
qed

lemma set_sliders_zip:
  assumes run: "set_sliders lib w (zip [Axial, Coronal, Sagital] (shape vol)) = Inr w'"
    and vol: "dicom_volume w = Some vol"
    and ok: "sliders_ok w"
  shows "sliders_ok w' \<and> dicom_volume w' = Some vol
       \<and> (\<forall>A B C. shape vol = [A, B, C] \<longrightarrow>
             slider_axial w' = slider_for A \<and> slider_coronal w' = slider_for B
             \<and> slider_sagital w' = slider_for C)"
proof -
  have okf: "slider_ok (slider_for n)" for n
    by (simp add: slider_ok_def slider_for_def)
  from ok have oa: "slider_ok (get_slider w Axial)" and oc: "slider_ok (get_slider w Coronal)"
    and os: "slider_ok (get_slider w Sagital)"
    by (simp_all add: sliders_ok_def)
  consider (s0) "shape vol = []" | (s1) A where "shape vol = [A]"
    | (s2) A B where "shape vol = [A, B]"
    | (s3) A B C rest where "shape vol = A # B # C # rest"
    by (cases "shape vol" rule: list.exhaust; simp)
       (metis list.exhaust)
  then show ?thesis
  proof cases
    case s0
    with run vol ok show ?thesis by simp
  next
    case s1
    with run obtain w1 where "set_slider lib w Axial A = Inr w1" and "w' = w1"
      by (auto split: sum.splits)
    from set_slider_Inr [OF this(1) vol _ oa] s1 \<open>w' = w1\<close>
    have "w' = put_slider w Axial (slider_for A)" by (simp add: ndim_def)
    with vol ok okf s1 show ?thesis by (simp add: sliders_ok_def)
  next
    case s2
    with run obtain w1 w2 where 1: "set_slider lib w Axial A = Inr w1"
      and 2: "set_slider lib w1 Coronal B = Inr w2" and "w' = w2"
      by (auto split: sum.splits)
    from set_slider_Inr [OF 1 vol _ oa] s2
    have e1: "w1 = put_slider w Axial (slider_for A)" by (simp add: ndim_def)
    then have v1: "dicom_volume w1 = Some vol" and o1: "slider_ok (get_slider w1 Coronal)"
      using vol oc by simp_all
    from set_slider_Inr [OF 2 v1 _ o1] s2
    have e2: "w2 = put_slider w1 Coronal (slider_for B)" by (simp add: ndim_def)
    from e1 e2 \<open>w' = w2\<close> vol ok okf s2 show ?thesis by (simp add: sliders_ok_def)
  next
    case s3
    with run obtain w1 w2 where 1: "set_slider lib w Axial A = Inr w1"
      and 2: "set_slider lib w1 Coronal B = Inr w2"
      and 3: "set_slider lib w2 Sagital C = Inr w'"
      by (auto split: sum.splits)
    from set_slider_Inr [OF 1 vol _ oa] s3
    have e1: "w1 = put_slider w Axial (slider_for A)" by simp
    then have v1: "dicom_volume w1 = Some vol" and o1: "slider_ok (get_slider w1 Coronal)"
      using vol oc by simp_all
    from set_slider_Inr [OF 2 v1 _ o1] s3
    have e2: "w2 = put_slider w1 Coronal (slider_for B)" by simp
    then have v2: "dicom_volume w2 = Some vol" and o2: "slider_ok (get_slider w2 Sagital)"
      using v1 e1 os by simp_all
    from set_slider_Inr [OF 3 v2 _ o2] s3
    have e3: "w' = put_slider w2 Sagital (slider_for C)" by simp
    from e1 e2 e3 vol ok okf s3 show ?thesis by (simp add: sliders_ok_def)
  qed
qed

lemma view_nifti_completed:
  assumes "status (view_nifti lib w db p) = Completed"
  shows "\<exists>volume w'.
           nib_load lib p = Inr volume
         \<and> set_sliders lib (w\<lparr>dicom_volume := Some volume\<rparr>)
               (zip [Axial, Coronal, Sagital] (shape volume)) = Inr w'
         \<and> window (view_nifti lib w db p) = w'"
proof -
  from assms have p: "p \<noteq> []"
    by (auto simp: view_nifti_def aborted_def)
  from assms p obtain volume where r: "nib_load lib p = Inr volume"
    by (cases "nib_load lib p") (auto simp: view_nifti_def caught_def)
  from assms p r obtain w' where s: "set_sliders lib (w\<lparr>dicom_volume := Some volume\<rparr>)
               (zip [Axial, Coronal, Sagital] (shape volume)) = Inr w'"
    by (cases "set_sliders lib (w\<lparr>dicom_volume := Some volume\<rparr>)
               (zip [Axial, Coronal, Sagital] (shape volume))")
       (auto simp: view_nifti_def)
  from assms p r s show ?thesis
    by (auto simp: view_nifti_def caught_def split: option.splits)
qed

lemma sliders_ok_volume [simp]: "sliders_ok (w\<lparr>dicom_volume := v\<rparr>) = sliders_ok w"
  by (simp add: sliders_ok_def)

lemma load_dicom_sliders_ok:
  assumes "sliders_ok w" and "\<not> crashed (status (load_dicom lib w db d))"
  shows "sliders_ok (window (load_dicom lib w db d))"
proof (cases "d = []")
  case True
  with assms show ?thesis by (simp add: load_dicom_def aborted_def)
next
  case d: False
  show ?thesis
  proof (cases "read_slices lib d")
    case (Inl e)
    with d assms show ?thesis by (simp add: load_dicom_def caught_def)
  next
    case (Inr sv)
    obtain slices volume where sv: "sv = (slices, volume)" by (cases sv)
    show ?thesis
    proof (cases "set_sliders lib (w\<lparr>dicom_volume := Some volume\<rparr>)
               (zip [Axial, Coronal, Sagital] (shape volume))")
      case (Inl e)
      with d Inr sv assms show ?thesis by (simp add: load_dicom_def)
    next
      case run: (Inr w')
      from set_sliders_zip [OF run] assms(1) have ok': "sliders_ok w'" by simp
      from d Inr sv run have "window (load_dicom lib w db d) = w'"
        by (simp add: load_dicom_def caught_def Let_def split: list.splits option.splits)
      with ok' show ?thesis by simp
    qed
  qed
qed

lemma view_nifti_sliders_ok:
  assumes "sliders_ok w" and "\<not> crashed (status (view_nifti lib w db p))"
  shows "sliders_ok (window (view_nifti lib w db p))"
proof (cases "p = []")
  case True
  with assms show ?thesis by (simp add: view_nifti_def aborted_def)
next
  case p: False
  show ?thesis
  proof (cases "nib_load lib p")
    case (Inl e)
    with p assms show ?thesis by (simp add: view_nifti_def caught_def)
  next
    case (Inr volume)
    show ?thesis
    proof (cases "set_sliders lib (w\<lparr>dicom_volume := Some volume\<rparr>)
               (zip [Axial, Coronal, Sagital] (shape volume))")
      case (Inl e)
      with p Inr assms show ?thesis by (simp add: view_nifti_def)
    next
      case run: (Inr w')
      from set_sliders_zip [OF run] assms(1) have ok': "sliders_ok w'" by simp
      from p Inr run have "window (view_nifti lib w db p) = w'"
        by (simp add: view_nifti_def caught_def split: option.splits)
      with ok' show ?thesis by simp
    qed
  qed
qed

lemma load_dicom_sliders:
  assumes ok: "sliders_ok w" and fin: "status (load_dicom lib w db d) = Completed"
    and shp: "map_option shape (dicom_volume (window (load_dicom lib w db d))) = Some [A, B, C]"
  shows "slider_axial (window (load_dicom lib w db d)) = slider_for A
       \<and> slider_coronal (window (load_dicom lib w db d)) = slider_for B
       \<and> slider_sagital (window (load_dicom lib w db d)) = slider_for C"
proof -
  from load_dicom_completed [OF fin] obtain volume w'
    where run: "set_sliders lib (w\<lparr>dicom_volume := Some volume\<rparr>)
               (zip [Axial, Coronal, Sagital] (shape volume)) = Inr w'"
      and win: "window (load_dicom lib w db d) = w'"
    by blast
  from set_sliders_zip [OF run] ok
  have v: "dicom_volume w' = Some volume"
    and all: "\<forall>A B C. shape volume = [A, B, C] \<longrightarrow>
             slider_axial w' = slider_for A \<and> slider_coronal w' = slider_for B
             \<and> slider_sagital w' = slider_for C"
    by simp_all
  from shp win v have "shape volume = [A, B, C]" by simp
  with all win show ?thesis by simp
qed

lemma view_nifti_sliders:
  assumes ok: "sliders_ok w" and fin: "status (view_nifti lib w db p) = Completed"
    and shp: "map_option shape (dicom_volume (window (view_nifti lib w db p))) = Some [A, B, C]"
  shows "slider_axial (window (view_nifti lib w db p)) = slider_for A
       \<and> slider_coronal (window (view_nifti lib w db p)) = slider_for B
       \<and> slider_sagital (window (view_nifti lib w db p)) = slider_for C"
proof -
  from view_nifti_completed [OF fin] obtain volume w'
    where run: "set_sliders lib (w\<lparr>dicom_volume := Some volume\<rparr>)
               (zip [Axial, Coronal, Sagital] (shape volume)) = Inr w'"
      and win: "window (view_nifti lib w db p) = w'"
    by blast
  from set_sliders_zip [OF run] ok
  have v: "dicom_volume w' = Some volume"
    and all: "\<forall>A B C. shape volume = [A, B, C] \<longrightarrow>
             slider_axial w' = slider_for A \<and> slider_coronal w' = slider_for B
             \<and> slider_sagital w' = slider_for C"
    by simp_all
  from shp win v have "shape volume = [A, B, C]" by simp
  with all win show ?thesis by simp
qed

lemma other_handlers_sliders_ok:
  "sliders_ok (window (convert_to_nifti lib w db p)) = sliders_ok w"
  "sliders_ok (window (load_image lib w db p)) = sliders_ok w"
  "sliders_ok (window (apply_morphological lib w db)) = sliders_ok w"
  "sliders_ok (window (count_cells lib w db)) = sliders_ok w"
  "sliders_ok (window (save_analysis lib w db p)) = sliders_ok w"
  by (auto simp: convert_to_nifti_def load_image_def apply_morphological_def count_cells_def
        save_analysis_def aborted_def caught_def Let_def sliders_ok_def
        split: option.splits sum.splits prod.splits)

lemma init_sliders_ok: "sliders_ok (ImageExpertWindow_init uid)"
  by (simp add: sliders_ok_def slider_ok_def ImageExpertWindow_init_def QSlider_def
        setEnabled_def)

text \<open>
  C5. In a window whose sliders start at 0 and hold a value that is not negative, as
  they do from the start and after every handler run that the process survives: when
  the load of a slice directory, or the load of an exported volume container, runs to
  its end and leaves a volume of shape (A, B, C), the axial, coronal and sagittal
  sliders have the values A div 2, B div 2 and C div 2, and each has the range from 0
  to its extent minus 1.
\<close>

theorem volume_load_sets_sliders:
  assumes "sliders_ok w"
  shows "(status (load_dicom lib w db d) = Completed
          \<and> map_option shape (dicom_volume (window (load_dicom lib w db d))) = Some [A, B, C]
          \<longrightarrow>
            slider_axial (window (load_dicom lib w db d)) =
              \<lparr>minimum = 0, maximum = int A - 1, slider_value = int A div 2, enabled = True\<rparr>
          \<and> slider_coronal (window (load_dicom lib w db d)) =
              \<lparr>minimum = 0, maximum = int B - 1, slider_value = int B div 2, enabled = True\<rparr>
          \<and> slider_sagital (window (load_dicom lib w db d)) =
              \<lparr>minimum = 0, maximum = int C - 1, slider_value = int C div 2, enabled = True\<rparr>)
       \<and> (status (view_nifti lib w db p) = Completed
          \<and> map_option shape (dicom_volume (window (view_nifti lib w db p))) = Some [A, B, C]
          \<longrightarrow>
            slider_axial (window (view_nifti lib w db p)) =
              \<lparr>minimum = 0, maximum = int A - 1, slider_value = int A div 2, enabled = True\<rparr>
          \<and> slider_coronal (window (view_nifti lib w db p)) =
              \<lparr>minimum = 0, maximum = int B - 1, slider_value = int B div 2, enabled = True\<rparr>
          \<and> slider_sagital (window (view_nifti lib w db p)) =
              \<lparr>minimum = 0, maximum = int C - 1, slider_value = int C div 2, enabled = True\<rparr>)
       \<and> (\<not> crashed (status (load_dicom lib w db d)) \<longrightarrow>
            sliders_ok (window (load_dicom lib w db d)))
       \<and> (\<not> crashed (status (view_nifti lib w db p)) \<longrightarrow>
            sliders_ok (window (view_nifti lib w db p)))
       \<and> sliders_ok (window (convert_to_nifti lib w db p))
       \<and> sliders_ok (window (load_image lib w db p))
       \<and> sliders_ok (window (apply_morphological lib w db))
       \<and> sliders_ok (window (count_cells lib w db))
       \<and> sliders_ok (window (save_analysis lib w db p))"
  using assms load_dicom_sliders [of w lib db d A B C] view_nifti_sliders [of w lib db p A B C]
    load_dicom_sliders_ok [of w lib db d] view_nifti_sliders_ok [of w lib db p]
  by (simp add: other_handlers_sliders_ok slider_for_def)

theorem volume_load_sets_sliders_witness:
  "sliders_ok (ImageExpertWindow_init 1 :: (nat, nat list list) image_window)
   \<and> status (load_dicom sample_image_lib (ImageExpertWindow_init 1) empty_db ''serie'') =
       Completed
   \<and> map_option shape (dicom_volume (window
        (load_dicom sample_image_lib (ImageExpertWindow_init 1) empty_db ''serie''))) =
       Some [2, 2, 2]
   \<and> slider_axial (window
        (load_dicom sample_image_lib (ImageExpertWindow_init 1) empty_db ''serie'')) =
       \<lparr>minimum = 0, maximum = 1, slider_value = 1, enabled = True\<rparr>
   \<and> status (view_nifti sample_image_lib (ImageExpertWindow_init 1) empty_db ''vol.nii'') =
       Completed
   \<and> map_option shape (dicom_volume (window
        (view_nifti sample_image_lib (ImageExpertWindow_init 1) empty_db ''vol.nii''))) =
       Some [4, 3, 2]
   \<and> slider_axial (window
        (view_nifti sample_image_lib (ImageExpertWindow_init 1) empty_db ''vol.nii'')) =
       \<lparr>minimum = 0, maximum = 3, slider_value = 2, enabled = True\<rparr>
   \<and> slider_coronal (window
        (view_nifti sample_image_lib (ImageExpertWindow_init 1) empty_db ''vol.nii'')) =
       \<lparr>minimum = 0, maximum = 2, slider_value = 1, enabled = True\<rparr>
   \<and> slider_sagital (window
        (view_nifti sample_image_lib (ImageExpertWindow_init 1) empty_db ''vol.nii'')) =
       \<lparr>minimum = 0, maximum = 1, slider_value = 1, enabled = True\<rparr>
   \<and> \<not> crashed (status
        (load_dicom sample_image_lib (ImageExpertWindow_init 1) empty_db ''serie''))
   \<and> sliders_ok (window
        (load_dicom sample_image_lib (ImageExpertWindow_init 1) empty_db ''serie''))"
proof -
  have ok: "sliders_ok (ImageExpertWindow_init 1 :: (nat, nat list list) image_window)"
    by (rule init_sliders_ok)
  have s1: "status (load_dicom sample_image_lib (ImageExpertWindow_init 1) empty_db ''serie'')
      = Completed"
    by code_simp
  have v1: "map_option shape (dicom_volume (window
        (load_dicom sample_image_lib (ImageExpertWindow_init 1) empty_db ''serie''))) =
       Some [2, 2, 2]"
    by code_simp
  have s2: "status (view_nifti sample_image_lib (ImageExpertWindow_init 1) empty_db
      ''vol.nii'') = Completed"
    by code_simp
  have v2: "map_option shape (dicom_volume (window
        (view_nifti sample_image_lib (ImageExpertWindow_init 1) empty_db ''vol.nii''))) =
       Some [4, 3, 2]"
    by code_simp
  show ?thesis
    using volume_load_sets_sliders
            [OF ok, of sample_image_lib empty_db "''serie''" 2 2 2 "''vol.nii''"]
          volume_load_sets_sliders
            [OF ok, of sample_image_lib empty_db "''serie''" 4 3 2 "''vol.nii''"]
          ok s1 v1 s2 v2
    by simp
qed

section \<open>The cell count\<close>

lemma threshold_binary_inv_any:
  assumes "is_binary g" and "t < 255"
  shows "threshold_binary_inv t g = threshold_binary_inv 0 g"
proof -
  have "(if t < p then 0 else 255) = (if 0 < p then 0 else (255::nat))"
    if "p = 0 \<or> p = 255" for p
    using that assms(2) by auto
  with assms(1) show ?thesis
    by (auto simp: threshold_binary_inv_def is_binary_def list_all_iff)
qed

lemma count_cells_binary:
  assumes img: "current_image w = Some im"
    and path: "current_image_path w = Some p"
    and gray: "to_gray (opencv otsu io) im = Inr (Gray g)"
    and bin: "is_binary g"
    and thr: "otsu g < 255"
    and shown: "imshow io (Gray (label_image
                  (morph_rows MORPH_OPEN 3 2 (threshold_binary_inv 0 g)))) = None"
  shows "count_cells (opencv otsu io) w db =
           \<lparr>window = w,
            store = save_image_analysis db p ''cell_count''
                      (PDict [(''method'', PStr ''connected_components'')])
                      (PStr (str_nat (count_regions 0 g))) (iw_user_id w),
            status = Completed, dialogs = []\<rparr>"
proof -
  have t: "threshold_inv_otsu (opencv otsu io) (Gray g) = Inr (Gray (threshold_binary_inv 0 g))"
    using threshold_binary_inv_any [OF bin thr] by (simp add: opencv_def)
  have m: "morphologyEx (opencv otsu io) (Gray b) MORPH_OPEN 3 2 =
             Inr (Gray (morph_rows MORPH_OPEN 3 2 b))" for b
    by (simp add: opencv_def)
  have c: "connectedComponents (opencv otsu io) (Gray b) =
             Inr (Suc (length (regions b)), Gray (label_image b))" for b
    by (simp add: opencv_def)
  have i: "imshow (opencv otsu io) = imshow io"
    by (simp add: opencv_def)
  have s: "str_int (int n) = str_nat n" for n
    by (simp add: str_int_def)
  show ?thesis
    unfolding count_cells_def
    by (simp add: img gray t m c i shown path image_path_def and_then_def unless_raised_def
          count_regions_def s del: str_nat.simps morph_rows.simps)
qed













lemma dark5_window:
  "current_image (picture_window ''oscuras5.png'') = Some two_dark_blobs_5
   \<and> current_image_path (picture_window ''oscuras5.png'') = Some ''oscuras5.png''
   \<and> iw_user_id (picture_window ''oscuras5.png'') = 1"
  by (simp add: picture_window_def load_image_def picture_lib_def opencv_def picture_io_def
        show_image_def two_dark_blobs_5_def Let_def ImageExpertWindow_init_def)

lemma dark5_gray: "to_gray picture_lib two_dark_blobs_5 = Inr (Gray gray_dark_5)"
  by (simp add: to_gray_def picture_lib_def opencv_def picture_io_def two_dark_blobs_5_def Let_def
        bgr2gray_def gray_dark_5_def)

lemma dark5_binary: "is_binary gray_dark_5"
  unfolding gray_dark_5_def by code_simp

lemma dark5_regions: "count_regions 0 gray_dark_5 = 2"
  unfolding gray_dark_5_def by code_simp

lemma dark5_shown:
  "imshow picture_io (Gray (label_image
     (morph_rows MORPH_OPEN 3 2 (threshold_binary_inv 0 gray_dark_5)))) = None"
  by (simp add: picture_io_def)

lemma dark5_count:
  "count_cells picture_lib (picture_window ''oscuras5.png'') empty_db =
     \<lparr>window = picture_window ''oscuras5.png'',
      store = save_image_analysis empty_db ''oscuras5.png'' ''cell_count''
                (PDict [(''method'', PStr ''connected_components'')])
                (PStr ''2'') 1,
      status = Completed, dialogs = []\<rparr>"
proof -
  have w: "current_image (picture_window ''oscuras5.png'') = Some two_dark_blobs_5"
    and p: "current_image_path (picture_window ''oscuras5.png'') = Some ''oscuras5.png''"
    and u: "iw_user_id (picture_window ''oscuras5.png'') = 1"
    using dark5_window by simp_all
  have g: "to_gray (opencv (\<lambda>rows. 0) picture_io) two_dark_blobs_5 = Inr (Gray gray_dark_5)"
    using dark5_gray by (simp add: picture_lib_def)
  have t: "(\<lambda>rows. 0::nat) gray_dark_5 < 255"
    by simp
  have sn: "str_nat 2 = ''2''"
    by code_simp
  from count_cells_binary [OF w p g dark5_binary t dark5_shown, of empty_db]
  show ?thesis
    by (simp add: picture_lib_def dark5_regions u sn del: str_nat.simps)
qed





end
